theory Spec2Isabelle
  imports Main
begin

section \<open>Collaborators outside the repository\<close>

text \<open>
  The service calls Go's \<^verbatim>\<open>strings\<close> package and \<^verbatim>\<open>bcrypt\<close>. A Go string is a byte
  sequence, here a \<^typ>\<open>string\<close>. The ASCII paths of \<^verbatim>\<open>strings.ToLower\<close>,
  \<^verbatim>\<open>strings.ToUpper\<close> and \<^verbatim>\<open>strings.TrimSpace\<close> are written out below; what they do on
  a string with a byte from \<^verbatim>\<open>0x80\<close> on (the table-driven Unicode mappings) and the
  password hash are functions of the libraries, taken as parameters.
\<close>

record lib =
  unicode_ToLower :: "string \<Rightarrow> string"
    \<comment> \<open>\<^verbatim>\<open>strings.Map(unicode.ToLower, s)\<close>\<close>
  unicode_ToUpper :: "string \<Rightarrow> string"
    \<comment> \<open>\<^verbatim>\<open>strings.Map(unicode.ToUpper, s)\<close>\<close>
  unicode_TrimFunc :: "string \<Rightarrow> string"
    \<comment> \<open>\<^verbatim>\<open>strings.TrimFunc(s, unicode.IsSpace)\<close>\<close>
  unicode_TrimRightFunc :: "string \<Rightarrow> string"
    \<comment> \<open>\<^verbatim>\<open>strings.TrimRightFunc(s, unicode.IsSpace)\<close>\<close>
  GenerateFromPassword :: "string \<Rightarrow> nat \<Rightarrow> string + string"
    \<comment> \<open>\<^verbatim>\<open>bcrypt.GenerateFromPassword(password, cost)\<close>: an error or the hash\<close>

definition MinCost :: nat where
  "MinCost = 4"

definition isASCII :: "char \<Rightarrow> bool" where
  \<comment> \<open>\<^verbatim>\<open>c < utf8.RuneSelf\<close>\<close>
  "isASCII c = (of_char c < (128::nat))"

definition upperAZ :: string where
  "upperAZ = ''ABCDEFGHIJKLMNOPQRSTUVWXYZ''"

definition lowerAZ :: string where
  "lowerAZ = ''abcdefghijklmnopqrstuvwxyz''"

definition toLowerByte :: "char \<Rightarrow> char" where
  \<comment> \<open>\<^verbatim>\<open>if 'A' <= c && c <= 'Z' { c += 'a' - 'A' }\<close>\<close>
  "toLowerByte c = (case map_of (zip upperAZ lowerAZ) c of Some d \<Rightarrow> d | None \<Rightarrow> c)"

definition toUpperByte :: "char \<Rightarrow> char" where
  \<comment> \<open>\<^verbatim>\<open>if 'a' <= c && c <= 'z' { c -= 'a' - 'A' }\<close>\<close>
  "toUpperByte c = (case map_of (zip lowerAZ upperAZ) c of Some d \<Rightarrow> d | None \<Rightarrow> c)"

definition ToLower :: "lib \<Rightarrow> string \<Rightarrow> string" where
  "ToLower L s = (if list_all isASCII s then map toLowerByte s else unicode_ToLower L s)"

definition ToUpper :: "lib \<Rightarrow> string \<Rightarrow> string" where
  "ToUpper L s = (if list_all isASCII s then map toUpperByte s else unicode_ToUpper L s)"

definition asciiSpace :: "char \<Rightarrow> bool" where
  \<comment> \<open>the table \<^verbatim>\<open>asciiSpace\<close>: tab, newline, vertical tab, form feed, carriage return, space\<close>
  "asciiSpace c = (c \<in> set [CHR 0x09, CHR 0x0A, CHR 0x0B, CHR 0x0C, CHR 0x0D, CHR 0x20])"

definition TrimSpace :: "lib \<Rightarrow> string \<Rightarrow> string" where
  \<comment> \<open>the first loop skips ASCII space from the left, the second from the right; either
      hands over to the Unicode-aware trim at the first byte that is not ASCII\<close>
  "TrimSpace L s =
     (let s1 = dropWhile asciiSpace s in
      case s1 of
        [] \<Rightarrow> []
      | c # _ \<Rightarrow>
          if \<not> isASCII c then unicode_TrimFunc L s1
          else
            (let s2 = rev (dropWhile asciiSpace (rev s1)) in
             if \<not> isASCII (last s2) then unicode_TrimRightFunc L s2 else s2))"

definition hashAndSalt :: "lib \<Rightarrow> string \<Rightarrow> string + string" where
  "hashAndSalt L pwd =
     (case GenerateFromPassword L pwd MinCost of
        Inl err \<Rightarrow> Inl err
      | Inr hash \<Rightarrow> Inr hash)"

section \<open>The role enumeration and its scanner\<close>

text \<open>
  Modelled from the spec: the generated package \<^verbatim>\<open>pkg/user_v1\<close>, which declares the type
  \<^verbatim>\<open>Role\<close>, its \<^verbatim>\<open>String\<close> method and the table \<^verbatim>\<open>Role_value\<close>, is not among the
  sources. The spec gives the enumeration as the closed set \<open>{unspecified, user, admin}\<close>
  with \<open>unspecified\<close> the zero value, stored as the lower-case form of the name; the
  source names the zero value \<^verbatim>\<open>Role_UNSPECIFIED\<close>.
\<close>

datatype Role = Role_UNSPECIFIED | Role_USER | Role_ADMIN

fun Role_String :: "Role \<Rightarrow> string" where
  \<comment> \<open>Modelled from the spec: \<^verbatim>\<open>Role.String()\<close>, the name of the value\<close>
  "Role_String Role_UNSPECIFIED = ''UNSPECIFIED''"
| "Role_String Role_USER = ''USER''"
| "Role_String Role_ADMIN = ''ADMIN''"

definition Role_value :: "string \<rightharpoonup> Role" where
  \<comment> \<open>Modelled from the spec: the table \<^verbatim>\<open>Role_value\<close> from names to values\<close>
  "Role_value = map_of [(''UNSPECIFIED'', Role_UNSPECIFIED), (''USER'', Role_USER), (''ADMIN'', Role_ADMIN)]"

type_synonym userRole = Role

text \<open>
  The value a driver hands to a \<^verbatim>\<open>sql.Scanner\<close>: \<^verbatim>\<open>nil\<close> for SQL NULL, a string or a
  byte slice for a text column, or a value that \<^verbatim>\<open>database/sql\<close> cannot store into a
  string.
\<close>

datatype driver_value = DNil | DString string | DBytes string | DUnsupported

record NullString =
  ns_String :: string
  ns_Valid :: bool

definition NullString_Scan :: "driver_value \<Rightarrow> string + NullString" where
  \<comment> \<open>\<^verbatim>\<open>sql.NullString.Scan\<close>: NULL gives \<open>Valid = false\<close> and no error\<close>
  "NullString_Scan v =
     (case v of
        DNil \<Rightarrow> Inr \<lparr>ns_String = [], ns_Valid = False\<rparr>
      | DString s \<Rightarrow> Inr \<lparr>ns_String = s, ns_Valid = True\<rparr>
      | DBytes s \<Rightarrow> Inr \<lparr>ns_String = s, ns_Valid = True\<rparr>
      | DUnsupported \<Rightarrow> Inl ''unsupported Scan, storing driver.Value into type *string'')"

definition Scan :: "lib \<Rightarrow> driver_value \<Rightarrow> string + userRole" where
  \<comment> \<open>\<^verbatim>\<open>func (dest *userRole) Scan(v interface{}) error\<close>; \<open>Inr\<close> is the value written to \<open>dest\<close>\<close>
  "Scan L v =
     (case NullString_Scan v of
        Inl err \<Rightarrow> Inl err
      | Inr ns \<Rightarrow>
          if \<not> ns_Valid ns then Inr Role_UNSPECIFIED
          else
            (case Role_value (ToUpper L (ns_String ns)) of
               Some val \<Rightarrow> Inr val
             | None \<Rightarrow> Inr Role_UNSPECIFIED))"

section \<open>Requests, responses and errors\<close>

record CreateRequest =
  cr_Name :: string
  cr_Email :: string
  cr_Password :: string
  cr_Role :: Role

record CreateResponse =
  cresp_Id :: int

record GetRequest =
  gr_Id :: int

record Timestamp =
  Seconds :: int
  Nanos :: int

record GetResponse =
  resp_Id :: int
  resp_Name :: string
  resp_Email :: string
  resp_Role :: Role
  resp_CreatedAt :: Timestamp
  resp_UpdatedAt :: Timestamp

text \<open>\<^verbatim>\<open>Email\<close> and \<^verbatim>\<open>Name\<close> of an update are pointers to a wrapped string: \<open>None\<close> is \<^verbatim>\<open>nil\<close>.\<close>

record UpdateRequest =
  ur_Id :: int
  ur_Email :: "string option"
  ur_Name :: "string option"
  ur_Role :: Role

record DeleteRequest =
  dr_Id :: int

datatype Empty = Empty

text \<open>The gRPC status codes; the service only ever builds \<open>Internal\<close>.\<close>

datatype code =
    OK | Canceled | Unknown | InvalidArgument | DeadlineExceeded | NotFound
  | AlreadyExists | PermissionDenied | ResourceExhausted | FailedPrecondition
  | Aborted | OutOfRange | Unimplemented | Internal | Unavailable | DataLoss
  | Unauthenticated

datatype status = Status code string

fun status_code :: "status \<Rightarrow> code" where
  "status_code (Status c m) = c"

definition Errorf :: "code \<Rightarrow> string \<Rightarrow> string \<Rightarrow> status" where
  \<comment> \<open>\<^verbatim>\<open>status.Errorf(c, "<prefix>: %v", err)\<close>\<close>
  "Errorf c prefix err = Status c (prefix @ '': '' @ err)"

definition timestamppb_New :: "int \<Rightarrow> Timestamp" where
  \<comment> \<open>a time in milliseconds since the epoch, as the columns of type \<^verbatim>\<open>TIMESTAMP(3)\<close> hold it\<close>
  "timestamppb_New t = \<lparr>Seconds = t div 1000, Nanos = (t mod 1000) * 1000000\<rparr>"

section \<open>Statements\<close>

text \<open>
  A statement is kept as the parts the query builder holds, each placeholder with the
  argument bound to it, rather than as SQL text.
\<close>

datatype sqlarg = Str string | Int64 int | Expr string

datatype stmt =
    InsertStmt string "string list" "sqlarg list" string
      \<comment> \<open>table, columns, values, suffix\<close>
  | SelectStmt "string list" string "(string \<times> sqlarg) list"
      \<comment> \<open>columns, table, equalities of the where clause\<close>
  | UpdateStmt string "(string \<times> sqlarg) list" "(string \<times> sqlarg) list"
      \<comment> \<open>table, set clauses in the order of the \<^verbatim>\<open>Set\<close> calls, where clause\<close>
  | DeleteStmt string "(string \<times> sqlarg) list"
      \<comment> \<open>table, where clause\<close>

record UpdateBuilder =
  ub_table :: string
  ub_where :: "(string \<times> sqlarg) list"
  ub_sets :: "(string \<times> sqlarg) list"

definition Set_clause :: "string \<Rightarrow> sqlarg \<Rightarrow> UpdateBuilder \<Rightarrow> UpdateBuilder" where
  \<comment> \<open>\<^verbatim>\<open>updateBuilder.Set(column, value)\<close>\<close>
  "Set_clause c v b = b\<lparr>ub_sets := ub_sets b @ [(c, v)]\<rparr>"

definition Insert_ToSql :: "string \<Rightarrow> string list \<Rightarrow> sqlarg list \<Rightarrow> string \<Rightarrow> string + stmt" where
  "Insert_ToSql table cols vals suffix =
     (if table = [] then Inl ''insert statements must specify a table''
      else if vals = [] then Inl ''insert statements must have at least one set of values or select clause''
      else Inr (InsertStmt table cols vals suffix))"

definition Select_ToSql :: "string list \<Rightarrow> string \<Rightarrow> (string \<times> sqlarg) list \<Rightarrow> string + stmt" where
  "Select_ToSql cols table wh =
     (if cols = [] then Inl ''select statements must have at least one result column''
      else Inr (SelectStmt cols table wh))"

definition Update_ToSql :: "UpdateBuilder \<Rightarrow> string + stmt" where
  "Update_ToSql b =
     (if ub_table b = [] then Inl ''update statements must specify a table''
      else if ub_sets b = [] then Inl ''update statements must have at least one Set clause''
      else Inr (UpdateStmt (ub_table b) (ub_sets b) (ub_where b)))"

definition Delete_ToSql :: "string \<Rightarrow> (string \<times> sqlarg) list \<Rightarrow> string + stmt" where
  "Delete_ToSql table wh =
     (if table = [] then Inl ''delete statements must specify a From table''
      else Inr (DeleteStmt table wh))"

section \<open>The store\<close>

text \<open>
  The table \<^verbatim>\<open>users\<close> of the migration: a serial primary key, \<^verbatim>\<open>name\<close> and \<^verbatim>\<open>email\<close>
  unique, \<^verbatim>\<open>role\<close> of the enum type \<^verbatim>\<open>user_role\<close>, both timestamps defaulting to the
  current time. \<^verbatim>\<open>SERIAL\<close> makes \<^verbatim>\<open>id\<close> a 32-bit integer fed by a sequence of that type,
  while the requests carry 64-bit ids: the driver refuses to bind an id that does not fit
  the column, and the sequence yields no value outside it. The pool state holds the rows, the sequence behind \<^verbatim>\<open>id\<close>, the
  store's clock, a connection fault if there is one (every statement then fails with
  it), and the statements submitted so far.
\<close>

record user_row =
  r_id :: int
  r_name :: string
  r_email :: string
  r_password :: string
  r_role :: string
  r_created_at :: int
  r_updated_at :: int

record pool =
  users :: "user_row list"
  users_id_seq :: int
  now :: int
  fault :: "string option"
  submitted :: "stmt list"

text \<open>
  The errors of the store and the driver, as the text that \<^verbatim>\<open>%v\<close> prints; the store's
  own wording is shortened.
\<close>

definition fits_int4 :: "int \<Rightarrow> bool" where
  \<comment> \<open>the range of the column type behind \<^verbatim>\<open>SERIAL\<close>\<close>
  "fits_int4 i = (- 2147483648 \<le> i \<and> i \<le> 2147483647)"

definition encode_int4_error :: string where
  \<comment> \<open>the driver's error for an argument outside the type of its parameter\<close>
  "encode_int4_error = ''failed to encode args: unable to encode into binary format for int4''"

definition sequence_exhausted :: string where
  "sequence_exhausted = ''nextval: reached maximum value of sequence users_id_seq''"

definition ErrNoRows :: string where
  \<comment> \<open>\<^verbatim>\<open>pgx.ErrNoRows\<close>\<close>
  "ErrNoRows = ''no rows in result set''"

definition invalid_enum_value :: "string \<Rightarrow> string" where
  "invalid_enum_value s = ''invalid input value for enum user_role: '' @ s"

definition unique_violation :: "string \<Rightarrow> string" where
  "unique_violation c = ''duplicate key value violates unique constraint '' @ c"

definition user_role :: "string list" where
  \<comment> \<open>\<^verbatim>\<open>CREATE TYPE "user_role" AS ENUM ('user', 'admin')\<close>\<close>
  "user_role = [''user'', ''admin'']"

fun check_set :: "string \<times> sqlarg \<Rightarrow> string option" where
  \<comment> \<open>the error, if any, of binding a value to a column; it does not depend on the rows\<close>
  "check_set (c, v) =
     (if c = ''name'' \<or> c = ''email'' \<or> c = ''password'' then
        (case v of Str s \<Rightarrow> None | _ \<Rightarrow> Some (''column '' @ c @ '' is of type text''))
      else if c = ''role'' then
        (case v of
           Str s \<Rightarrow> if s \<in> set user_role then None
                    else Some (invalid_enum_value s)
         | _ \<Rightarrow> Some ''column role is of type user_role'')
      else if c = ''updated_at'' then
        (case v of
           Expr e \<Rightarrow> if e = ''NOW()'' then None else Some (''unsupported expression '' @ e)
         | _ \<Rightarrow> Some ''column updated_at is of type timestamp'')
      else Some (''column '' @ c @ '' cannot be assigned''))"

fun check_sets :: "(string \<times> sqlarg) list \<Rightarrow> string option" where
  "check_sets [] = None"
| "check_sets (a # as) = (case check_set a of Some err \<Rightarrow> Some err | None \<Rightarrow> check_sets as)"

fun apply_set :: "int \<Rightarrow> user_row \<Rightarrow> string \<times> sqlarg \<Rightarrow> user_row" where
  "apply_set t r (c, Str s) =
     (if c = ''name'' then r\<lparr>r_name := s\<rparr>
      else if c = ''email'' then r\<lparr>r_email := s\<rparr>
      else if c = ''password'' then r\<lparr>r_password := s\<rparr>
      else if c = ''role'' then r\<lparr>r_role := s\<rparr>
      else r)"
| "apply_set t r (c, Expr e) = (if c = ''updated_at'' then r\<lparr>r_updated_at := t\<rparr> else r)"
| "apply_set t r (c, Int64 i) = r"

definition apply_sets :: "int \<Rightarrow> user_row \<Rightarrow> (string \<times> sqlarg) list \<Rightarrow> user_row" where
  "apply_sets t r as = foldl (apply_set t) r as"

fun where_id :: "(string \<times> sqlarg) list \<Rightarrow> int option" where
  \<comment> \<open>the one where clause the service builds: \<^verbatim>\<open>sq.Eq{"id": id}\<close>\<close>
  "where_id [(c, Int64 i)] = (if c = ''id'' then Some i else None)"
| "where_id _ = None"

definition exec_insert :: "pool \<Rightarrow> string list \<Rightarrow> sqlarg list \<Rightarrow> pool \<times> (string + int)" where
  \<comment> \<open>the sequence gives no value outside its type; a value, once drawn, is not given back
      when a constraint rejects the row\<close>
  "exec_insert db cols vals =
     (if length cols \<noteq> length vals then (db, Inl ''INSERT has a different number of target columns and expressions'')
      else if \<not> list_all (\<lambda>c. c \<in> set cols) [''name'', ''email'', ''password'', ''role'']
        then (db, Inl ''null value violates not-null constraint'')
      else
        (case check_sets (zip cols vals) of
           Some err \<Rightarrow> (db, Inl err)
         | None \<Rightarrow>
             (let i = users_id_seq db + 1;
                  r = apply_sets (now db)
                        \<lparr>r_id = i, r_name = [], r_email = [], r_password = [], r_role = [],
                         r_created_at = now db, r_updated_at = now db\<rparr>
                        (zip cols vals);
                  db1 = db\<lparr>users_id_seq := i\<rparr>
              in if \<not> fits_int4 i then (db, Inl sequence_exhausted)
                 else if list_ex (\<lambda>x. r_id x = r_id r) (users db)
                   then (db1, Inl (unique_violation ''users_pkey''))
                 else if list_ex (\<lambda>x. r_email x = r_email r) (users db)
                   then (db1, Inl (unique_violation ''users_email_key''))
                 else if list_ex (\<lambda>x. r_name x = r_name r) (users db)
                   then (db1, Inl (unique_violation ''users_name_key''))
                 else (db1\<lparr>users := users db @ [r]\<rparr>, Inr i))))"

definition assigns :: "string \<Rightarrow> (string \<times> sqlarg) list \<Rightarrow> bool" where
  "assigns c sets = list_ex (\<lambda>a. fst a = c) sets"

definition exec_update :: "pool \<Rightarrow> (string \<times> sqlarg) list \<Rightarrow> int \<Rightarrow> pool \<times> (string + nat)" where
  \<comment> \<open>a unique index is probed for the columns the statement assigns; the result is the
      number of rows affected\<close>
  "exec_update db sets i =
     (case check_sets sets of
        Some err \<Rightarrow> (db, Inl err)
      | None \<Rightarrow>
          (let hit = filter (\<lambda>r. r_id r = i) (users db);
               rest = filter (\<lambda>r. r_id r \<noteq> i) (users db);
               new = map (\<lambda>r. apply_sets (now db) r sets) hit
           in if assigns ''email'' sets \<and> list_ex (\<lambda>n. list_ex (\<lambda>x. r_email x = r_email n) rest) new
                then (db, Inl (unique_violation ''users_email_key''))
              else if assigns ''name'' sets \<and> list_ex (\<lambda>n. list_ex (\<lambda>x. r_name x = r_name n) rest) new
                then (db, Inl (unique_violation ''users_name_key''))
              else
                (db\<lparr>users := map (\<lambda>r. if r_id r = i then apply_sets (now db) r sets else r) (users db)\<rparr>,
                 Inr (length hit))))"

definition exec_delete :: "pool \<Rightarrow> int \<Rightarrow> pool \<times> (string + nat)" where
  "exec_delete db i =
     (db\<lparr>users := filter (\<lambda>r. r_id r \<noteq> i) (users db)\<rparr>,
      Inr (length (filter (\<lambda>r. r_id r = i) (users db))))"

datatype cell = CInt int | CText string | CTime int

fun column :: "user_row \<Rightarrow> string \<Rightarrow> cell option" where
  "column r c =
     (if c = ''id'' then Some (CInt (r_id r))
      else if c = ''name'' then Some (CText (r_name r))
      else if c = ''email'' then Some (CText (r_email r))
      else if c = ''password'' then Some (CText (r_password r))
      else if c = ''role'' then Some (CText (r_role r))
      else if c = ''created_at'' then Some (CTime (r_created_at r))
      else if c = ''updated_at'' then Some (CTime (r_updated_at r))
      else None)"

definition users_columns :: "string list" where
  "users_columns = [''id'', ''name'', ''email'', ''password'', ''role'', ''created_at'', ''updated_at'']"

definition exec_select :: "pool \<Rightarrow> string list \<Rightarrow> int \<Rightarrow> string + cell list" where
  \<comment> \<open>\<^verbatim>\<open>QueryRow\<close> reads the first row; with none its \<^verbatim>\<open>Scan\<close> reports \<^verbatim>\<open>pgx.ErrNoRows\<close>\<close>
  "exec_select db cols i =
     (if \<not> list_all (\<lambda>c. c \<in> set users_columns) cols then Inl ''column does not exist''
      else
        (case filter (\<lambda>r. r_id r = i) (users db) of
           [] \<Rightarrow> Inl ErrNoRows
         | r # _ \<Rightarrow>
             (case those (map (column r) cols) of
                None \<Rightarrow> Inl ''column does not exist''
              | Some cs \<Rightarrow> Inr cs)))"

text \<open>
  The two calls of the pool the service uses. Each records the statement as submitted;
  a connection fault fails it before the store sees it, and so does an id of the where
  clause that cannot be encoded for the column.
\<close>

definition Exec :: "pool \<Rightarrow> stmt \<Rightarrow> pool \<times> (string + nat)" where
  "Exec db q =
     (let db1 = db\<lparr>submitted := submitted db @ [q]\<rparr> in
      case fault db of
        Some err \<Rightarrow> (db1, Inl err)
      | None \<Rightarrow>
          (case q of
             UpdateStmt table sets wh \<Rightarrow>
               (case where_id wh of
                  Some i \<Rightarrow> if table \<noteq> ''users'' then (db1, Inl ''relation does not exist'')
                            else if \<not> fits_int4 i then (db1, Inl encode_int4_error)
                            else exec_update db1 sets i
                | None \<Rightarrow> (db1, Inl ''unsupported where clause''))
           | DeleteStmt table wh \<Rightarrow>
               (case where_id wh of
                  Some i \<Rightarrow> if table \<noteq> ''users'' then (db1, Inl ''relation does not exist'')
                            else if \<not> fits_int4 i then (db1, Inl encode_int4_error)
                            else exec_delete db1 i
                | None \<Rightarrow> (db1, Inl ''unsupported where clause''))
           | _ \<Rightarrow> (db1, Inl ''statement returns rows'')))"

definition QueryRow :: "pool \<Rightarrow> stmt \<Rightarrow> pool \<times> (string + cell list)" where
  "QueryRow db q =
     (let db1 = db\<lparr>submitted := submitted db @ [q]\<rparr> in
      case fault db of
        Some err \<Rightarrow> (db1, Inl err)
      | None \<Rightarrow>
          (case q of
             InsertStmt table cols vals suffix \<Rightarrow>
               if table \<noteq> ''users'' then (db1, Inl ''relation does not exist'')
               else if suffix \<noteq> ''RETURNING id'' then (db1, Inl ErrNoRows)
               else
                 (case exec_insert db1 cols vals of
                    (db2, Inl err) \<Rightarrow> (db2, Inl err)
                  | (db2, Inr i) \<Rightarrow> (db2, Inr [CInt i]))
           | SelectStmt cols table wh \<Rightarrow>
               (case where_id wh of
                  Some i \<Rightarrow> if table \<noteq> ''users'' then (db1, Inl ''relation does not exist'')
                            else if \<not> fits_int4 i then (db1, Inl encode_int4_error)
                            else (db1, exec_select db1 cols i)
                | None \<Rightarrow> (db1, Inl ''unsupported where clause''))
           | _ \<Rightarrow> (db1, Inl ErrNoRows)))"

section \<open>The service\<close>

text \<open>
  Each operation takes the pool state and the request and returns the new pool state with
  either a status error or the response. The log lines are not modelled.
\<close>

definition Create :: "lib \<Rightarrow> pool \<Rightarrow> CreateRequest \<Rightarrow> pool \<times> (status + CreateResponse)" where
  "Create L db req =
     (case hashAndSalt L (cr_Password req) of
        Inl err \<Rightarrow> (db, Inl (Errorf Internal ''failed to hash password'' err))
      | Inr password \<Rightarrow>
          (case Insert_ToSql ''users'' [''name'', ''email'', ''password'', ''role'']
                  [Str (TrimSpace L (cr_Name req)),
                   Str (ToLower L (TrimSpace L (cr_Email req))),
                   Str password,
                   Str (ToLower L (Role_String (cr_Role req)))]
                  ''RETURNING id'' of
             Inl err \<Rightarrow> (db, Inl (Errorf Internal ''failed to build query'' err))
           | Inr query \<Rightarrow>
               (case QueryRow db query of
                  (db', Inl err) \<Rightarrow> (db', Inl (Errorf Internal ''failed to insert user'' err))
                | (db', Inr [CInt userID]) \<Rightarrow> (db', Inr \<lparr>cresp_Id = userID\<rparr>)
                | (db', Inr _) \<Rightarrow>
                    (db', Inl (Errorf Internal ''failed to insert user'' ''cannot scan into *int64'')))))"

fun Get_Scan :: "lib \<Rightarrow> cell list \<Rightarrow> string + GetResponse" where
  \<comment> \<open>\<^verbatim>\<open>Scan(&id, &name, &email, &role, &createdAt, &updatedAt)\<close> and the response built from it\<close>
  "Get_Scan L [CInt i, CText name, CText email, CText role, CTime createdAt, CTime updatedAt] =
     (case Scan L (DString role) of
        Inl err \<Rightarrow> Inl err
      | Inr role' \<Rightarrow>
          Inr \<lparr>resp_Id = i, resp_Name = name, resp_Email = email, resp_Role = role',
               resp_CreatedAt = timestamppb_New createdAt,
               resp_UpdatedAt = timestamppb_New updatedAt\<rparr>)"
| "Get_Scan L _ = Inl ''cannot scan row''"

definition Get :: "lib \<Rightarrow> pool \<Rightarrow> GetRequest \<Rightarrow> pool \<times> (status + GetResponse)" where
  "Get L db req =
     (case Select_ToSql [''id'', ''name'', ''email'', ''role'', ''created_at'', ''updated_at'']
             ''users'' [(''id'', Int64 (gr_Id req))] of
        Inl err \<Rightarrow> (db, Inl (Errorf Internal ''failed to build query'' err))
      | Inr query \<Rightarrow>
          (case QueryRow db query of
             (db', Inl err) \<Rightarrow> (db', Inl (Errorf Internal ''failed to select user'' err))
           | (db', Inr cells) \<Rightarrow>
               (case Get_Scan L cells of
                  Inl err \<Rightarrow> (db', Inl (Errorf Internal ''failed to select user'' err))
                | Inr resp \<Rightarrow> (db', Inr resp))))"

definition updateBuilder :: "lib \<Rightarrow> UpdateRequest \<Rightarrow> UpdateBuilder" where
  \<comment> \<open>the builder of \<^verbatim>\<open>Update\<close> when \<^verbatim>\<open>ToSql\<close> is called on it\<close>
  "updateBuilder L req =
     (let b0 = \<lparr>ub_table = ''users'', ub_where = [(''id'', Int64 (ur_Id req))], ub_sets = []\<rparr>;
          b1 = (case ur_Email req of
                  None \<Rightarrow> b0
                | Some e \<Rightarrow>
                    (let v = TrimSpace L e in
                     if v \<noteq> [] then Set_clause ''email'' (Str (ToLower L v)) b0 else b0));
          b2 = (case ur_Name req of
                  None \<Rightarrow> b1
                | Some n \<Rightarrow>
                    (let v = TrimSpace L n in
                     if v \<noteq> [] then Set_clause ''name'' (Str v) b1 else b1));
          b3 = (if ur_Role req \<noteq> Role_UNSPECIFIED
                then Set_clause ''role'' (Str (ToLower L (Role_String (ur_Role req)))) b2
                else b2)
      in Set_clause ''updated_at'' (Expr ''NOW()'') b3)"

definition Update :: "lib \<Rightarrow> pool \<Rightarrow> UpdateRequest \<Rightarrow> pool \<times> (status + Empty)" where
  "Update L db req =
     (case Update_ToSql (updateBuilder L req) of
        Inl err \<Rightarrow> (db, Inl (Errorf Internal ''failed to build query'' err))
      | Inr query \<Rightarrow>
          (case Exec db query of
             (db', Inl err) \<Rightarrow> (db', Inl (Errorf Internal ''failed to update user'' err))
           | (db', Inr ct) \<Rightarrow> (db', Inr Empty)))"

definition Delete :: "lib \<Rightarrow> pool \<Rightarrow> DeleteRequest \<Rightarrow> pool \<times> (status + Empty)" where
  "Delete L db req =
     (case Delete_ToSql ''users'' [(''id'', Int64 (dr_Id req))] of
        Inl err \<Rightarrow> (db, Inl (Errorf Internal ''failed to build query'' err))
      | Inr query \<Rightarrow>
          (case Exec db query of
             (db', Inl err) \<Rightarrow> (db', Inl (Errorf Internal ''failed to delete user'' err))
           | (db', Inr ct) \<Rightarrow> (db', Inr Empty)))"

section \<open>Sample data\<close>

text \<open>
  A library instance and pool states for the concrete instances below. The inputs used
  with it are ASCII, so its Unicode functions are never reached; its hash is a fixed
  string of the shape bcrypt produces at cost 4.
\<close>

definition sample_hash :: string where
  "sample_hash = ''$2a$04$abcdefghijklmnopqrstuuE5Pq0r1s2t3u4v5w6x7y8z9A0B1C2D3''"

definition sample_lib :: lib where
  "sample_lib =
     \<lparr>unicode_ToLower = (\<lambda>s. s), unicode_ToUpper = (\<lambda>s. s),
      unicode_TrimFunc = (\<lambda>s. s), unicode_TrimRightFunc = (\<lambda>s. s),
      GenerateFromPassword = (\<lambda>p c. Inr sample_hash)\<rparr>"

definition alice_row :: user_row where
  "alice_row =
     \<lparr>r_id = 1, r_name = ''Alice'', r_email = ''alice@example.org'', r_password = sample_hash,
      r_role = ''admin'', r_created_at = 1600000000000, r_updated_at = 1600000000000\<rparr>"

definition alice_pool :: pool where
  "alice_pool = \<lparr>users = [alice_row], users_id_seq = 1, now = 1700000000123, fault = None, submitted = []\<rparr>"

definition bob_request :: CreateRequest where
  "bob_request =
     \<lparr>cr_Name = ''  Bob '', cr_Email = '' Bob@Example.ORG'', cr_Password = ''hunter2'',
      cr_Role = Role_USER\<rparr>"

definition bob_row :: user_row where
  "bob_row =
     \<lparr>r_id = 2, r_name = ''Bob'', r_email = ''bob@example.org'', r_password = sample_hash,
      r_role = ''user'', r_created_at = 1700000000123, r_updated_at = 1700000000123\<rparr>"

definition touch_request :: UpdateRequest where
  "touch_request = \<lparr>ur_Id = 1, ur_Email = None, ur_Name = None, ur_Role = Role_UNSPECIFIED\<rparr>"

definition rename_request :: UpdateRequest where
  "rename_request = \<lparr>ur_Id = 1, ur_Email = Some ''   '', ur_Name = Some '' Al '', ur_Role = Role_USER\<rparr>"

definition far_touch_request :: UpdateRequest where
  \<comment> \<open>an id one past the largest value of the id column\<close>
  "far_touch_request = touch_request\<lparr>ur_Id := 2147483648\<rparr>"

definition far_rename_request :: UpdateRequest where
  "far_rename_request = rename_request\<lparr>ur_Id := 2147483648\<rparr>"

definition far_delete_request :: DeleteRequest where
  "far_delete_request = \<lparr>dr_Id = 2147483648\<rparr>"

definition failing_lib :: lib where
  \<comment> \<open>a library whose random source gives out, so that bcrypt has no salt\<close>
  "failing_lib = sample_lib\<lparr>GenerateFromPassword := (\<lambda>p c. Inl ''unexpected EOF'')\<rparr>"

definition down_pool :: pool where
  "down_pool = alice_pool\<lparr>fault := Some ''connection refused''\<rparr>"

definition nobody_request :: CreateRequest where
  "nobody_request = bob_request\<lparr>cr_Role := Role_UNSPECIFIED\<rparr>"

section \<open>Closed forms\<close>

text \<open>
  The statement each operation submits and the row an insert writes, named so that the
  results below can be stated in terms of them.
\<close>

definition insert_stmt :: "lib \<Rightarrow> CreateRequest \<Rightarrow> string \<Rightarrow> stmt" where
  "insert_stmt L req h =
     InsertStmt ''users'' [''name'', ''email'', ''password'', ''role'']
       [Str (TrimSpace L (cr_Name req)), Str (ToLower L (TrimSpace L (cr_Email req))), Str h,
        Str (ToLower L (Role_String (cr_Role req)))]
       ''RETURNING id''"

definition new_row :: "lib \<Rightarrow> pool \<Rightarrow> CreateRequest \<Rightarrow> string \<Rightarrow> user_row" where
  "new_row L db req h =
     \<lparr>r_id = users_id_seq db + 1, r_name = TrimSpace L (cr_Name req),
      r_email = ToLower L (TrimSpace L (cr_Email req)), r_password = h,
      r_role = ToLower L (Role_String (cr_Role req)),
      r_created_at = now db, r_updated_at = now db\<rparr>"

definition select_stmt :: "int \<Rightarrow> stmt" where
  "select_stmt i =
     SelectStmt [''id'', ''name'', ''email'', ''role'', ''created_at'', ''updated_at''] ''users''
       [(''id'', Int64 i)]"

definition update_stmt :: "lib \<Rightarrow> UpdateRequest \<Rightarrow> stmt" where
  "update_stmt L req =
     UpdateStmt ''users'' (ub_sets (updateBuilder L req)) [(''id'', Int64 (ur_Id req))]"

definition delete_stmt :: "int \<Rightarrow> stmt" where
  "delete_stmt i = DeleteStmt ''users'' [(''id'', Int64 i)]"

section \<open>Strings and roles\<close>

lemma status_code_Errorf [simp]: "status_code (Errorf c prefix err) = c"
  by (simp add: Errorf_def)


lemmas ascii_defs = isASCII_def toLowerByte_def toUpperByte_def upperAZ_def lowerAZ_def

lemmas string_defs = ToLower_def ToUpper_def TrimSpace_def asciiSpace_def ascii_defs

lemma ToLower_role_names:
  "ToLower L ''UNSPECIFIED'' = ''unspecified''" "ToLower L ''USER'' = ''user''"
  "ToLower L ''ADMIN'' = ''admin''"
  by (simp_all add: ToLower_def ascii_defs)

lemma ToUpper_role_text:
  "ToUpper L ''unspecified'' = ''UNSPECIFIED''" "ToUpper L ''user'' = ''USER''" "ToUpper L ''admin'' = ''ADMIN''"
  by (simp_all add: ToUpper_def ascii_defs)

lemma role_round_trip: "Role_value (ToUpper L (ToLower L (Role_String r))) = Some r"
  by (cases r) (simp_all add: ToLower_role_names ToUpper_role_text Role_value_def)

lemma role_text_in_enum:
  "ToLower L (Role_String r) \<in> set user_role \<longleftrightarrow> r \<noteq> Role_UNSPECIFIED"
  by (cases r) (simp_all add: ToLower_def ascii_defs user_role_def)

lemma Scan_text:
  "Scan L (DString s) = Inr (case Role_value (ToUpper L s) of Some val \<Rightarrow> val | None \<Rightarrow> Role_UNSPECIFIED)"
  by (simp add: Scan_def NullString_Scan_def split: option.splits)

lemma Scan_bytes:
  "Scan L (DBytes s) = Inr (case Role_value (ToUpper L s) of Some val \<Rightarrow> val | None \<Rightarrow> Role_UNSPECIFIED)"
  by (simp add: Scan_def NullString_Scan_def split: option.splits)

section \<open>The update statement\<close>

lemma ub_sets_updateBuilder:
  "ub_sets (updateBuilder L req) =
     (case ur_Email req of
        None \<Rightarrow> []
      | Some e \<Rightarrow> if TrimSpace L e \<noteq> [] then [(''email'', Str (ToLower L (TrimSpace L e)))] else [])
     @ (case ur_Name req of
          None \<Rightarrow> []
        | Some n \<Rightarrow> if TrimSpace L n \<noteq> [] then [(''name'', Str (TrimSpace L n))] else [])
     @ (if ur_Role req \<noteq> Role_UNSPECIFIED
        then [(''role'', Str (ToLower L (Role_String (ur_Role req))))] else [])
     @ [(''updated_at'', Expr ''NOW()'')]"
  by (simp add: updateBuilder_def Set_clause_def Let_def split: option.splits)

lemma ub_table_updateBuilder: "ub_table (updateBuilder L req) = ''users''"
  by (simp add: updateBuilder_def Set_clause_def Let_def split: option.splits)

lemma ub_where_updateBuilder: "ub_where (updateBuilder L req) = [(''id'', Int64 (ur_Id req))]"
  by (simp add: updateBuilder_def Set_clause_def Let_def split: option.splits)

lemma Update_ToSql_updateBuilder:
  "Update_ToSql (updateBuilder L req) =
     Inr (UpdateStmt ''users'' (ub_sets (updateBuilder L req)) [(''id'', Int64 (ur_Id req))])"
  by (simp add: Update_ToSql_def ub_table_updateBuilder ub_where_updateBuilder ub_sets_updateBuilder)

lemma check_sets_append:
  "check_sets (xs @ ys) = (case check_sets xs of Some err \<Rightarrow> Some err | None \<Rightarrow> check_sets ys)"
  by (induction xs) (auto split: option.splits)

lemma check_set_role:
  "r \<noteq> Role_UNSPECIFIED \<Longrightarrow> check_set (''role'', Str (ToLower L (Role_String r))) = None"
  by (cases r) (simp_all add: ToLower_def ascii_defs user_role_def)

lemma check_sets_updateBuilder: "check_sets (ub_sets (updateBuilder L req)) = None"
  by (simp add: ub_sets_updateBuilder check_sets_append check_set_role del: check_set.simps
        split: option.splits)
     simp

lemma submitted_Exec: "submitted (fst (Exec db q)) = submitted db @ [q]"
  by (simp add: Exec_def Let_def exec_update_def exec_delete_def
      split: option.splits stmt.splits)

lemma submitted_Update:
  "submitted (fst (Update L db req)) =
     submitted db @ [UpdateStmt ''users'' (ub_sets (updateBuilder L req)) [(''id'', Int64 (ur_Id req))]]"
proof -
  let ?q = "UpdateStmt ''users'' (ub_sets (updateBuilder L req)) [(''id'', Int64 (ur_Id req))]"
  obtain db' res where e: "Exec db ?q = (db', res)" by (cases "Exec db ?q")
  with submitted_Exec [of db ?q] have "submitted db' = submitted db @ [?q]" by simp
  with e show ?thesis
    by (simp add: Update_def Update_ToSql_updateBuilder split: sum.splits)
qed

section \<open>What each operation does to the pool\<close>

text \<open>
  \<^verbatim>\<open>Create\<close> by cases: the hash fails, the connection fails, or the store runs the insert
  and checks, in this order, the enum of the role, the sequence, the primary key and the
  two unique indexes.
\<close>

lemma exec_insert_user:
  "exec_insert db [''name'', ''email'', ''password'', ''role''] [Str n, Str e, Str h, Str ro] =
     (if ro \<notin> set user_role then (db, Inl (invalid_enum_value ro))
      else
        (let r = \<lparr>r_id = users_id_seq db + 1, r_name = n, r_email = e, r_password = h, r_role = ro,
                  r_created_at = now db, r_updated_at = now db\<rparr>;
             db1 = db\<lparr>users_id_seq := users_id_seq db + 1\<rparr>
         in if \<not> fits_int4 (users_id_seq db + 1) then (db, Inl sequence_exhausted)
            else if list_ex (\<lambda>x. r_id x = users_id_seq db + 1) (users db)
              then (db1, Inl (unique_violation ''users_pkey''))
            else if list_ex (\<lambda>x. r_email x = e) (users db)
              then (db1, Inl (unique_violation ''users_email_key''))
            else if list_ex (\<lambda>x. r_name x = n) (users db)
              then (db1, Inl (unique_violation ''users_name_key''))
            else (db1\<lparr>users := users db @ [r]\<rparr>, Inr (users_id_seq db + 1))))"
  by (simp add: exec_insert_def apply_sets_def Let_def)

lemma Create_hash_fails:
  "GenerateFromPassword L (cr_Password req) MinCost = Inl err \<Longrightarrow>
   Create L db req = (db, Inl (Errorf Internal ''failed to hash password'' err))"
  by (simp add: Create_def hashAndSalt_def)

lemma Create_fault:
  "GenerateFromPassword L (cr_Password req) MinCost = Inr h \<Longrightarrow> fault db = Some err \<Longrightarrow>
   Create L db req =
     (db\<lparr>submitted := submitted db @ [insert_stmt L req h]\<rparr>,
      Inl (Errorf Internal ''failed to insert user'' err))"
  by (simp add: Create_def hashAndSalt_def Insert_ToSql_def QueryRow_def Let_def
      insert_stmt_def)

lemma Create_runs:
  "GenerateFromPassword L (cr_Password req) MinCost = Inr h \<Longrightarrow> fault db = None \<Longrightarrow>
   Create L db req =
     (let db1 = db\<lparr>submitted := submitted db @ [insert_stmt L req h]\<rparr>;
          db2 = db1\<lparr>users_id_seq := users_id_seq db + 1\<rparr>;
          r = new_row L db req h
      in if r_role r \<notin> set user_role
           then (db1, Inl (Errorf Internal ''failed to insert user'' (invalid_enum_value (r_role r))))
         else if \<not> fits_int4 (r_id r)
           then (db1, Inl (Errorf Internal ''failed to insert user'' sequence_exhausted))
         else if list_ex (\<lambda>x. r_id x = r_id r) (users db)
           then (db2, Inl (Errorf Internal ''failed to insert user'' (unique_violation ''users_pkey'')))
         else if list_ex (\<lambda>x. r_email x = r_email r) (users db)
           then (db2, Inl (Errorf Internal ''failed to insert user'' (unique_violation ''users_email_key'')))
         else if list_ex (\<lambda>x. r_name x = r_name r) (users db)
           then (db2, Inl (Errorf Internal ''failed to insert user'' (unique_violation ''users_name_key'')))
         else (db2\<lparr>users := users db @ [r]\<rparr>, Inr \<lparr>cresp_Id = r_id r\<rparr>))"
  by (simp add: Create_def hashAndSalt_def Insert_ToSql_def QueryRow_def Let_def
      insert_stmt_def new_row_def exec_insert_user)

text \<open>
  A \<^verbatim>\<open>Create\<close> that succeeds has appended exactly one row: the trimmed name, the
  trimmed and lower-cased email, the string the hash function returned and the lower-case
  role, under the next value of the sequence and with both timestamps at the store's
  current time.
\<close>

lemma Create_success:
  assumes "Create L db req = (db', Inr resp)"
  shows "\<exists>h. GenerateFromPassword L (cr_Password req) MinCost = Inr h \<and> fault db = None \<and>
             cr_Role req \<noteq> Role_UNSPECIFIED \<and>
             fits_int4 (users_id_seq db + 1) \<and>
             \<not> list_ex (\<lambda>x. r_id x = users_id_seq db + 1) (users db) \<and>
             cresp_Id resp = users_id_seq db + 1 \<and>
             db' = db\<lparr>submitted := submitted db @ [insert_stmt L req h],
                      users_id_seq := users_id_seq db + 1,
                      users := users db @ [new_row L db req h]\<rparr>"
proof (cases "GenerateFromPassword L (cr_Password req) MinCost")
  case (Inl err)
  with assms Create_hash_fails [of L req err db] show ?thesis by simp
next
  case (Inr h)
  show ?thesis
  proof (cases "fault db")
    case (Some err)
    with assms Inr Create_fault [of L req h db err] show ?thesis by simp
  next
    case None
    with assms Inr Create_runs [of L req h db] show ?thesis
      by (auto simp: Let_def role_text_in_enum new_row_def split: if_splits)
  qed
qed

lemma Create_keeps_users_on_error:
  "isl (snd (Create L db req)) \<Longrightarrow> users (fst (Create L db req)) = users db"
proof (cases "GenerateFromPassword L (cr_Password req) MinCost")
  case (Inl err)
  then show ?thesis by (simp add: Create_hash_fails)
next
  case (Inr h)
  assume f: "isl (snd (Create L db req))"
  show ?thesis
  proof (cases "fault db")
    case (Some err)
    with Inr show ?thesis by (simp add: Create_fault)
  next
    case None
    with f Inr show ?thesis
      by (simp add: Create_runs Let_def split: if_splits)
  qed
qed

lemma submitted_Create:
  "submitted (fst (Create L db req)) =
     (case GenerateFromPassword L (cr_Password req) MinCost of
        Inl err \<Rightarrow> submitted db
      | Inr h \<Rightarrow> submitted db @ [insert_stmt L req h])"
proof (cases "GenerateFromPassword L (cr_Password req) MinCost")
  case (Inl err)
  then show ?thesis by (simp add: Create_hash_fails)
next
  case (Inr h)
  then show ?thesis
    by (cases "fault db") (simp_all add: Create_fault Create_runs Let_def)
qed

lemma Create_error_is_Internal:
  "snd (Create L db req) = Inl e \<Longrightarrow> status_code e = Internal"
proof (cases "GenerateFromPassword L (cr_Password req) MinCost")
  case (Inl err)
  assume "snd (Create L db req) = Inl e"
  with Inl show ?thesis by (auto simp: Create_hash_fails)
next
  case (Inr h)
  assume f: "snd (Create L db req) = Inl e"
  show ?thesis
  proof (cases "fault db")
    case (Some err)
    with f Inr show ?thesis by (auto simp: Create_fault)
  next
    case None
    with f Inr show ?thesis
      by (auto simp: Create_runs Let_def split: if_splits)
  qed
qed

lemma Get_fault:
  "fault db = Some err \<Longrightarrow>
   Get L db req =
     (db\<lparr>submitted := submitted db @ [select_stmt (gr_Id req)]\<rparr>,
      Inl (Errorf Internal ''failed to select user'' err))"
  by (simp add: Get_def Select_ToSql_def QueryRow_def Let_def select_stmt_def)

lemma Get_unfit:
  "fault db = None \<Longrightarrow> \<not> fits_int4 (gr_Id req) \<Longrightarrow>
   Get L db req =
     (db\<lparr>submitted := submitted db @ [select_stmt (gr_Id req)]\<rparr>,
      Inl (Errorf Internal ''failed to select user'' encode_int4_error))"
  by (simp add: Get_def Select_ToSql_def QueryRow_def Let_def select_stmt_def)

lemma Get_runs:
  "fault db = None \<Longrightarrow> fits_int4 (gr_Id req) \<Longrightarrow>
   Get L db req =
     (db\<lparr>submitted := submitted db @ [select_stmt (gr_Id req)]\<rparr>,
      case filter (\<lambda>r. r_id r = gr_Id req) (users db) of
        [] \<Rightarrow> Inl (Errorf Internal ''failed to select user'' ErrNoRows)
      | r # _ \<Rightarrow>
          Inr \<lparr>resp_Id = r_id r, resp_Name = r_name r, resp_Email = r_email r,
               resp_Role = (case Role_value (ToUpper L (r_role r)) of
                              Some val \<Rightarrow> val | None \<Rightarrow> Role_UNSPECIFIED),
               resp_CreatedAt = timestamppb_New (r_created_at r),
               resp_UpdatedAt = timestamppb_New (r_updated_at r)\<rparr>)"
  by (simp add: Get_def Select_ToSql_def QueryRow_def Let_def select_stmt_def
      exec_select_def users_columns_def Scan_text split: list.splits)

lemma Get_error_is_Internal:
  "snd (Get L db req) = Inl e \<Longrightarrow> status_code e = Internal"
  by (cases "fault db"; cases "fits_int4 (gr_Id req)")
     (auto simp: Get_fault Get_runs Get_unfit split: list.splits)

lemma submitted_Get:
  "submitted (fst (Get L db req)) = submitted db @ [select_stmt (gr_Id req)]"
  by (cases "fault db"; cases "fits_int4 (gr_Id req)")
     (simp_all add: Get_fault Get_runs Get_unfit)

lemma users_Get: "users (fst (Get L db req)) = users db"
  by (cases "fault db"; cases "fits_int4 (gr_Id req)")
     (simp_all add: Get_fault Get_runs Get_unfit)

lemma Update_fault:
  "fault db = Some err \<Longrightarrow>
   Update L db req =
     (db\<lparr>submitted := submitted db @ [update_stmt L req]\<rparr>,
      Inl (Errorf Internal ''failed to update user'' err))"
  by (simp add: Update_def Update_ToSql_updateBuilder Exec_def Let_def update_stmt_def)

lemma Update_unfit:
  "fault db = None \<Longrightarrow> \<not> fits_int4 (ur_Id req) \<Longrightarrow>
   Update L db req =
     (db\<lparr>submitted := submitted db @ [update_stmt L req]\<rparr>,
      Inl (Errorf Internal ''failed to update user'' encode_int4_error))"
  by (simp add: Update_def Update_ToSql_updateBuilder Exec_def Let_def update_stmt_def)

lemma Update_runs:
  "fault db = None \<Longrightarrow> fits_int4 (ur_Id req) \<Longrightarrow>
   Update L db req =
     (let db1 = db\<lparr>submitted := submitted db @ [update_stmt L req]\<rparr>;
          sets = ub_sets (updateBuilder L req);
          hit = filter (\<lambda>r. r_id r = ur_Id req) (users db);
          rest = filter (\<lambda>r. r_id r \<noteq> ur_Id req) (users db);
          new = map (\<lambda>r. apply_sets (now db) r sets) hit
      in if assigns ''email'' sets \<and> list_ex (\<lambda>n. list_ex (\<lambda>x. r_email x = r_email n) rest) new
           then (db1, Inl (Errorf Internal ''failed to update user'' (unique_violation ''users_email_key'')))
         else if assigns ''name'' sets \<and> list_ex (\<lambda>n. list_ex (\<lambda>x. r_name x = r_name n) rest) new
           then (db1, Inl (Errorf Internal ''failed to update user'' (unique_violation ''users_name_key'')))
         else
           (db1\<lparr>users := map (\<lambda>r. if r_id r = ur_Id req then apply_sets (now db) r sets else r)
                             (users db)\<rparr>,
            Inr Empty))"
  by (simp add: Update_def Update_ToSql_updateBuilder Exec_def Let_def update_stmt_def
      exec_update_def check_sets_updateBuilder)

lemma Update_error_is_Internal:
  "snd (Update L db req) = Inl e \<Longrightarrow> status_code e = Internal"
  by (cases "fault db"; cases "fits_int4 (ur_Id req)")
     (auto simp: Update_fault Update_runs Update_unfit Let_def split: if_splits)

lemma Delete_fault:
  "fault db = Some err \<Longrightarrow>
   Delete L db req =
     (db\<lparr>submitted := submitted db @ [delete_stmt (dr_Id req)]\<rparr>,
      Inl (Errorf Internal ''failed to delete user'' err))"
  by (simp add: Delete_def Delete_ToSql_def Exec_def Let_def delete_stmt_def)

lemma Delete_unfit:
  "fault db = None \<Longrightarrow> \<not> fits_int4 (dr_Id req) \<Longrightarrow>
   Delete L db req =
     (db\<lparr>submitted := submitted db @ [delete_stmt (dr_Id req)]\<rparr>,
      Inl (Errorf Internal ''failed to delete user'' encode_int4_error))"
  by (simp add: Delete_def Delete_ToSql_def Exec_def Let_def delete_stmt_def)

lemma Delete_runs:
  "fault db = None \<Longrightarrow> fits_int4 (dr_Id req) \<Longrightarrow>
   Delete L db req =
     (db\<lparr>submitted := submitted db @ [delete_stmt (dr_Id req)],
         users := filter (\<lambda>r. r_id r \<noteq> dr_Id req) (users db)\<rparr>,
      Inr Empty)"
  by (simp add: Delete_def Delete_ToSql_def Exec_def Let_def delete_stmt_def
      exec_delete_def)

lemma Delete_error_is_Internal:
  "snd (Delete L db req) = Inl e \<Longrightarrow> status_code e = Internal"
  by (cases "fault db"; cases "fits_int4 (dr_Id req)")
     (auto simp: Delete_fault Delete_runs Delete_unfit)

lemma submitted_Delete:
  "submitted (fst (Delete L db req)) = submitted db @ [delete_stmt (dr_Id req)]"
  by (cases "fault db"; cases "fits_int4 (dr_Id req)")
     (simp_all add: Delete_fault Delete_runs Delete_unfit)

lemma filter_no_hit:
  "\<not> list_ex (\<lambda>r. r_id r = i) rows \<Longrightarrow>
   filter (\<lambda>r. r_id r = i) rows = [] \<and> filter (\<lambda>r. r_id r \<noteq> i) rows = rows \<and>
   map (\<lambda>r. if r_id r = i then f r else r) rows = rows"
  by (induction rows) auto

section \<open>The sample data, evaluated\<close>

lemma sample_hashes: "GenerateFromPassword sample_lib p c = Inr sample_hash"
  by (simp add: sample_lib_def)

lemma fault_alice: "fault alice_pool = None"
  by (simp add: alice_pool_def)

lemma new_row_bob: "new_row sample_lib alice_pool bob_request sample_hash = bob_row"
  by (simp add: new_row_def bob_request_def bob_row_def alice_pool_def string_defs)

lemma no_conflict_bob:
  "fits_int4 (users_id_seq alice_pool + 1)"
  "\<not> list_ex (\<lambda>x. r_id x = users_id_seq alice_pool + 1) (users alice_pool)"
  "\<not> list_ex (\<lambda>x. r_email x = ToLower sample_lib (TrimSpace sample_lib (cr_Email bob_request)))
        (users alice_pool)"
  "\<not> list_ex (\<lambda>x. r_name x = TrimSpace sample_lib (cr_Name bob_request)) (users alice_pool)"
  by (simp_all add: alice_pool_def alice_row_def bob_request_def string_defs fits_int4_def)

lemma Create_bob:
  "Create sample_lib alice_pool bob_request =
     (alice_pool\<lparr>submitted := [insert_stmt sample_lib bob_request sample_hash],
                 users_id_seq := 2, users := [alice_row, bob_row]\<rparr>,
      Inr \<lparr>cresp_Id = 2\<rparr>)"
proof -
  have f: "fault alice_pool = None" by (simp add: alice_pool_def)
  show ?thesis
    unfolding Create_runs [OF sample_hashes f] new_row_bob Let_def
    by (simp add: alice_pool_def alice_row_def bob_row_def user_role_def fits_int4_def)
qed

section \<open>The claims\<close>

text \<open>
  Claim C1, as stated, fails: a \<^verbatim>\<open>Create\<close> whose role is the zero value does not succeed.
  With a store that holds one user, a request with role \<open>unspecified\<close> is answered with
  an internal error and leaves the rows as they were, while the same request with role
  \<open>user\<close> succeeds.
\<close>

theorem Create_unspecified_role_counterexample:
  "cr_Role nobody_request = Role_UNSPECIFIED \<and>
   snd (Create sample_lib alice_pool nobody_request) =
     Inl (Errorf Internal ''failed to insert user'' (invalid_enum_value ''unspecified'')) \<and>
   users (fst (Create sample_lib alice_pool nobody_request)) = users alice_pool \<and>
   snd (Create sample_lib alice_pool (nobody_request\<lparr>cr_Role := Role_USER\<rparr>)) = Inr \<lparr>cresp_Id = 2\<rparr>"
proof -
  have r: "new_row sample_lib alice_pool nobody_request sample_hash = bob_row\<lparr>r_role := ''unspecified''\<rparr>"
    by (simp add: new_row_def nobody_request_def bob_request_def bob_row_def alice_pool_def string_defs)
  have a: "snd (Create sample_lib alice_pool nobody_request) =
     Inl (Errorf Internal ''failed to insert user'' (invalid_enum_value ''unspecified''))"
    unfolding Create_runs [OF sample_hashes fault_alice] r Let_def
    by (simp add: bob_row_def user_role_def)
  have b: "users (fst (Create sample_lib alice_pool nobody_request)) = users alice_pool"
    unfolding Create_runs [OF sample_hashes fault_alice] r Let_def
    by (simp add: bob_row_def user_role_def)
  have c: "nobody_request\<lparr>cr_Role := Role_USER\<rparr> = bob_request"
    by (simp add: nobody_request_def bob_request_def)
  from a b c show ?thesis by (simp add: Create_bob) (simp add: nobody_request_def)
qed

text \<open>
  Claim C1, amended. For a request whose role is the zero value, \<^verbatim>\<open>Create\<close> binds the
  role as its lower-case string form \<open>unspecified\<close>, exactly as it binds \<open>user\<close> and
  \<open>admin\<close>, but the enum type of the role column admits only \<open>user\<close> and \<open>admin\<close>:
  the call always fails with an internal error and persists no row. For the known values
  \<open>user\<close> and \<open>admin\<close> the role text is a member of the enum, and when the hash
  succeeds, the store is reachable, the sequence still has a value for the id and neither
  id nor email nor name collides, the call succeeds and persists the role as that
  lower-case text.
\<close>

theorem Create_unspecified_role_is_rejected:
  "(cr_Role req = Role_UNSPECIFIED \<longrightarrow>
      isl (snd (Create L db req)) \<and>
      users (fst (Create L db req)) = users db \<and>
      (\<forall>e. snd (Create L db req) = Inl e \<longrightarrow> status_code e = Internal) \<and>
      (\<forall>h. GenerateFromPassword L (cr_Password req) MinCost = Inr h \<longrightarrow>
         submitted (fst (Create L db req)) =
           submitted db @
             [InsertStmt ''users'' [''name'', ''email'', ''password'', ''role'']
                [Str (TrimSpace L (cr_Name req)), Str (ToLower L (TrimSpace L (cr_Email req))),
                 Str h, Str ''unspecified'']
                ''RETURNING id''] \<and>
         (fault db = None \<longrightarrow>
            snd (Create L db req) =
              Inl (Errorf Internal ''failed to insert user'' (invalid_enum_value ''unspecified''))))) \<and>
   (cr_Role req \<noteq> Role_UNSPECIFIED \<longrightarrow>
      ToLower L (Role_String (cr_Role req)) \<in> {''user'', ''admin''} \<and>
      (\<forall>h. GenerateFromPassword L (cr_Password req) MinCost = Inr h \<and> fault db = None \<and>
            fits_int4 (users_id_seq db + 1) \<and>
            \<not> list_ex (\<lambda>x. r_id x = users_id_seq db + 1) (users db) \<and>
            \<not> list_ex (\<lambda>x. r_email x = ToLower L (TrimSpace L (cr_Email req))) (users db) \<and>
            \<not> list_ex (\<lambda>x. r_name x = TrimSpace L (cr_Name req)) (users db) \<longrightarrow>
            snd (Create L db req) = Inr \<lparr>cresp_Id = users_id_seq db + 1\<rparr> \<and>
            users (fst (Create L db req)) =
              users db @
                [\<lparr>r_id = users_id_seq db + 1, r_name = TrimSpace L (cr_Name req),
                  r_email = ToLower L (TrimSpace L (cr_Email req)), r_password = h,
                  r_role = ToLower L (Role_String (cr_Role req)),
                  r_created_at = now db, r_updated_at = now db\<rparr>]))"
proof (intro conjI impI allI)
  assume u: "cr_Role req = Role_UNSPECIFIED"
  have no: "\<not> (\<exists>db' resp. Create L db req = (db', Inr resp))"
    using Create_success [of L db req] u by blast
  then show f: "isl (snd (Create L db req))"
    by (cases "Create L db req"; cases "snd (Create L db req)") auto
  then show "users (fst (Create L db req)) = users db"
    by (rule Create_keeps_users_on_error)
  fix e assume "snd (Create L db req) = Inl e"
  then show "status_code e = Internal" by (rule Create_error_is_Internal)
next
  fix h
  assume u: "cr_Role req = Role_UNSPECIFIED"
    and h: "GenerateFromPassword L (cr_Password req) MinCost = Inr h"
  have t: "ToLower L (Role_String (cr_Role req)) = ''unspecified''"
    using u by (simp add: ToLower_role_names)
  from h t show "submitted (fst (Create L db req)) =
           submitted db @
             [InsertStmt ''users'' [''name'', ''email'', ''password'', ''role'']
                [Str (TrimSpace L (cr_Name req)), Str (ToLower L (TrimSpace L (cr_Email req))),
                 Str h, Str ''unspecified'']
                ''RETURNING id'']"
    by (simp add: submitted_Create insert_stmt_def)
  assume "fault db = None"
  with h t show "snd (Create L db req) =
              Inl (Errorf Internal ''failed to insert user'' (invalid_enum_value ''unspecified''))"
    by (simp add: Create_runs Let_def new_row_def user_role_def)
next
  assume k: "cr_Role req \<noteq> Role_UNSPECIFIED"
  then show "ToLower L (Role_String (cr_Role req)) \<in> {''user'', ''admin''}"
    by (cases "cr_Role req") (simp_all add: ToLower_role_names)
  fix h
  assume a: "GenerateFromPassword L (cr_Password req) MinCost = Inr h \<and> fault db = None \<and>
            fits_int4 (users_id_seq db + 1) \<and>
            \<not> list_ex (\<lambda>x. r_id x = users_id_seq db + 1) (users db) \<and>
            \<not> list_ex (\<lambda>x. r_email x = ToLower L (TrimSpace L (cr_Email req))) (users db) \<and>
            \<not> list_ex (\<lambda>x. r_name x = TrimSpace L (cr_Name req)) (users db)"
  from k have e: "ToLower L (Role_String (cr_Role req)) \<in> set user_role"
    by (simp add: role_text_in_enum)
  from a e show "snd (Create L db req) = Inr \<lparr>cresp_Id = users_id_seq db + 1\<rparr>"
    by (simp add: Create_runs Let_def new_row_def)
  from a e show "users (fst (Create L db req)) =
              users db @
                [\<lparr>r_id = users_id_seq db + 1, r_name = TrimSpace L (cr_Name req),
                  r_email = ToLower L (TrimSpace L (cr_Email req)), r_password = h,
                  r_role = ToLower L (Role_String (cr_Role req)),
                  r_created_at = now db, r_updated_at = now db\<rparr>]"
    by (simp add: Create_runs Let_def new_row_def)
qed

theorem Create_unspecified_role_is_rejected_witness:
  "cr_Role nobody_request = Role_UNSPECIFIED \<and>
   isl (snd (Create sample_lib alice_pool nobody_request)) \<and>
   users (fst (Create sample_lib alice_pool nobody_request)) = [alice_row] \<and>
   cr_Role bob_request = Role_USER \<and>
   snd (Create sample_lib alice_pool bob_request) = Inr \<lparr>cresp_Id = 2\<rparr> \<and>
   map r_role (users (fst (Create sample_lib alice_pool bob_request))) = [''admin'', ''user'']"
proof -
  have u: "cr_Role nobody_request = Role_UNSPECIFIED" "cr_Role bob_request = Role_USER"
    by (simp_all add: nobody_request_def bob_request_def)
  from u Create_unspecified_role_is_rejected [of nobody_request sample_lib alice_pool]
  have a: "isl (snd (Create sample_lib alice_pool nobody_request))"
    "users (fst (Create sample_lib alice_pool nobody_request)) = [alice_row]"
    by (simp_all add: alice_pool_def)
  from u sample_hashes fault_alice no_conflict_bob
    Create_unspecified_role_is_rejected [of bob_request sample_lib alice_pool]
  have b: "snd (Create sample_lib alice_pool bob_request) = Inr \<lparr>cresp_Id = users_id_seq alice_pool + 1\<rparr>"
    "map r_role (users (fst (Create sample_lib alice_pool bob_request))) =
       map r_role (users alice_pool) @ [ToLower sample_lib (Role_String (cr_Role bob_request))]"
    by simp_all
  from u a b show ?thesis
    by (simp add: alice_pool_def alice_row_def ToLower_role_names)
qed

text \<open>
  Claim C2. For a string read from the role column, handed over as a string or as bytes,
  the scanner of \<^verbatim>\<open>Get\<close> never returns an error: it yields the enumeration value whose
  name is the upper-cased string, and \<open>unspecified\<close> when no name matches.
\<close>

theorem Scan_string_never_fails:
  "\<not> isl (Scan L (DString s)) \<and> \<not> isl (Scan L (DBytes s)) \<and>
   (Role_value (ToUpper L s) = None \<longrightarrow>
      Scan L (DString s) = Inr Role_UNSPECIFIED \<and> Scan L (DBytes s) = Inr Role_UNSPECIFIED) \<and>
   (\<forall>r. Role_value (ToUpper L s) = Some r \<longrightarrow>
      Scan L (DString s) = Inr r \<and> Scan L (DBytes s) = Inr r)"
  by (simp add: Scan_text Scan_bytes)

theorem Scan_string_never_fails_witness:
  "Role_value (ToUpper sample_lib ''superuser'') = None \<and>
   Scan sample_lib (DString ''superuser'') = Inr Role_UNSPECIFIED \<and>
   Role_value (ToUpper sample_lib ''Admin'') = Some Role_ADMIN \<and>
   Scan sample_lib (DString ''Admin'') = Inr Role_ADMIN"
proof -
  have a: "Role_value (ToUpper sample_lib ''superuser'') = None"
    by (simp add: Role_value_def ToUpper_def ascii_defs)
  have b: "Role_value (ToUpper sample_lib ''Admin'') = Some Role_ADMIN"
    by (simp add: Role_value_def ToUpper_def ascii_defs)
  from a b Scan_string_never_fails [of sample_lib "''superuser''"]
    Scan_string_never_fails [of sample_lib "''Admin''"]
  show ?thesis by simp
qed

text \<open>
  Claim C4. The set clauses of the statement that \<^verbatim>\<open>Update\<close> generates and submits
  are, in this order: \<open>email\<close> exactly when the field is present and not empty after
  trimming, with the trimmed value lower-cased; \<open>name\<close> exactly when the field is
  present and not empty after trimming, with the trimmed value; \<open>role\<close> exactly when
  the role is not the zero value, with its lower-case name; and always \<open>updated_at\<close>,
  set to \<^verbatim>\<open>NOW()\<close>. No other column is assigned.
\<close>

theorem Update_sets_supplied_columns:
  "ub_sets (updateBuilder L req) =
     (case ur_Email req of
        None \<Rightarrow> []
      | Some e \<Rightarrow> if TrimSpace L e \<noteq> [] then [(''email'', Str (ToLower L (TrimSpace L e)))] else [])
     @ (case ur_Name req of
          None \<Rightarrow> []
        | Some n \<Rightarrow> if TrimSpace L n \<noteq> [] then [(''name'', Str (TrimSpace L n))] else [])
     @ (if ur_Role req \<noteq> Role_UNSPECIFIED
        then [(''role'', Str (ToLower L (Role_String (ur_Role req))))] else [])
     @ [(''updated_at'', Expr ''NOW()'')] \<and>
   (assigns ''email'' (ub_sets (updateBuilder L req)) \<longleftrightarrow>
      (\<exists>e. ur_Email req = Some e \<and> TrimSpace L e \<noteq> [])) \<and>
   (assigns ''name'' (ub_sets (updateBuilder L req)) \<longleftrightarrow>
      (\<exists>n. ur_Name req = Some n \<and> TrimSpace L n \<noteq> [])) \<and>
   (assigns ''role'' (ub_sets (updateBuilder L req)) \<longleftrightarrow> ur_Role req \<noteq> Role_UNSPECIFIED) \<and>
   assigns ''updated_at'' (ub_sets (updateBuilder L req)) \<and>
   (\<forall>a \<in> set (ub_sets (updateBuilder L req)).
      fst a \<in> {''email'', ''name'', ''role'', ''updated_at''}) \<and>
   Update_ToSql (updateBuilder L req) =
     Inr (UpdateStmt ''users'' (ub_sets (updateBuilder L req)) [(''id'', Int64 (ur_Id req))]) \<and>
   submitted (fst (Update L db req)) =
     submitted db @
       [UpdateStmt ''users'' (ub_sets (updateBuilder L req)) [(''id'', Int64 (ur_Id req))]]"
proof -
  let ?S = "ub_sets (updateBuilder L req)"
  have cols: "assigns c (xs @ ys) \<longleftrightarrow> assigns c xs \<or> assigns c ys" for c xs ys
    by (simp add: assigns_def)
  have e: "assigns ''email'' ?S \<longleftrightarrow> (\<exists>e. ur_Email req = Some e \<and> TrimSpace L e \<noteq> [])"
    by (auto simp: ub_sets_updateBuilder cols assigns_def split: option.splits)
  have n: "assigns ''name'' ?S \<longleftrightarrow> (\<exists>n. ur_Name req = Some n \<and> TrimSpace L n \<noteq> [])"
    by (auto simp: ub_sets_updateBuilder cols assigns_def split: option.splits)
  have r: "assigns ''role'' ?S \<longleftrightarrow> ur_Role req \<noteq> Role_UNSPECIFIED"
    by (auto simp: ub_sets_updateBuilder cols assigns_def split: option.splits)
  have u: "assigns ''updated_at'' ?S"
    by (simp add: ub_sets_updateBuilder cols) (simp add: assigns_def)
  have only: "\<forall>a \<in> set ?S. fst a \<in> {''email'', ''name'', ''role'', ''updated_at''}"
    by (auto simp: ub_sets_updateBuilder split: option.splits if_splits)
  from e n r u only show ?thesis
    using ub_sets_updateBuilder [of L req] Update_ToSql_updateBuilder [of L req]
      submitted_Update [of L db req]
    by blast
qed

theorem Update_sets_supplied_columns_witness:
  "ub_sets (updateBuilder sample_lib rename_request) =
     [(''name'', Str ''Al''), (''role'', Str ''user''), (''updated_at'', Expr ''NOW()'')] \<and>
   \<not> assigns ''email'' (ub_sets (updateBuilder sample_lib rename_request)) \<and>
   submitted (fst (Update sample_lib alice_pool rename_request)) =
     [UpdateStmt ''users''
        [(''name'', Str ''Al''), (''role'', Str ''user''), (''updated_at'', Expr ''NOW()'')]
        [(''id'', Int64 1)]]"
proof -
  have t: "TrimSpace sample_lib ''   '' = []" "TrimSpace sample_lib '' Al '' = ''Al''"
    "ToLower sample_lib ''USER'' = ''user''"
    by (simp_all add: string_defs)
  note th = Update_sets_supplied_columns [of sample_lib rename_request alice_pool]
  have s: "ub_sets (updateBuilder sample_lib rename_request) =
     [(''name'', Str ''Al''), (''role'', Str ''user''), (''updated_at'', Expr ''NOW()'')]"
    using th t by (simp add: rename_request_def)
  have e: "\<not> assigns ''email'' (ub_sets (updateBuilder sample_lib rename_request))"
    using th t by (simp add: rename_request_def assigns_def)
  have q: "submitted (fst (Update sample_lib alice_pool rename_request)) =
     [UpdateStmt ''users'' (ub_sets (updateBuilder sample_lib rename_request)) [(''id'', Int64 1)]]"
    using th by (simp add: rename_request_def alice_pool_def)
  from s e q show ?thesis by simp
qed

text \<open>
  Claim C5, as stated, fails: not every such \<^verbatim>\<open>Update\<close> executes. On a reachable store
  that holds one user, the request with email and name absent, the role unspecified and
  the id 2147483648, which the 32-bit id column cannot hold, is refused when its id is
  bound: the call returns an internal error and no row is touched.
\<close>

theorem Update_without_fields_counterexample:
  "ur_Email far_touch_request = None \<and> ur_Name far_touch_request = None \<and>
   ur_Role far_touch_request = Role_UNSPECIFIED \<and> fault alice_pool = None \<and>
   snd (Update sample_lib alice_pool far_touch_request) =
     Inl (Errorf Internal ''failed to update user'' encode_int4_error) \<and>
   users (fst (Update sample_lib alice_pool far_touch_request)) = users alice_pool"
proof -
  have u: "\<not> fits_int4 (ur_Id far_touch_request)"
    by (simp add: far_touch_request_def fits_int4_def)
  show ?thesis
    by (simp add: Update_unfit [OF fault_alice u] fault_alice)
       (simp add: far_touch_request_def touch_request_def)
qed

text \<open>
  Claim C5, amended. On a reachable store, an \<^verbatim>\<open>Update\<close> with email and name absent and
  the role unspecified, whose id fits the 32-bit id column, submits a statement whose only
  set clause is \<open>updated_at\<close>, returns the empty response, sets \<open>updated_at\<close> of the
  addressed row to the store's current time and leaves every other column of it, and
  every other row, as it was. With an id that does not fit the column the same statement
  is submitted but refused: the call returns an internal error and changes no row.
\<close>

theorem Update_without_fields_refreshes_updated_at:
  assumes "ur_Email req = None" and "ur_Name req = None" and "ur_Role req = Role_UNSPECIFIED"
    and "fault db = None"
  shows "submitted (fst (Update L db req)) =
           submitted db @
             [UpdateStmt ''users'' [(''updated_at'', Expr ''NOW()'')] [(''id'', Int64 (ur_Id req))]] \<and>
         users_id_seq (fst (Update L db req)) = users_id_seq db \<and>
         (fits_int4 (ur_Id req) \<longrightarrow>
            snd (Update L db req) = Inr Empty \<and>
            users (fst (Update L db req)) =
              map (\<lambda>r. if r_id r = ur_Id req then r\<lparr>r_updated_at := now db\<rparr> else r) (users db)) \<and>
         (\<not> fits_int4 (ur_Id req) \<longrightarrow>
            snd (Update L db req) = Inl (Errorf Internal ''failed to update user'' encode_int4_error) \<and>
            users (fst (Update L db req)) = users db)"
proof -
  from assms have s: "ub_sets (updateBuilder L req) = [(''updated_at'', Expr ''NOW()'')]"
    by (simp add: ub_sets_updateBuilder)
  show ?thesis
  proof (cases "fits_int4 (ur_Id req)")
    case True
    with assms(4) show ?thesis
      by (simp add: Update_runs Let_def s update_stmt_def assigns_def apply_sets_def)
  next
    case False
    with assms(4) show ?thesis
      by (simp add: Update_unfit s update_stmt_def)
  qed
qed

theorem Update_without_fields_refreshes_updated_at_witness:
  "fits_int4 (ur_Id touch_request) \<and>
   snd (Update sample_lib alice_pool touch_request) = Inr Empty \<and>
   users (fst (Update sample_lib alice_pool touch_request)) =
     [alice_row\<lparr>r_updated_at := 1700000000123\<rparr>] \<and>
   \<not> fits_int4 (ur_Id far_touch_request) \<and>
   snd (Update sample_lib alice_pool far_touch_request) =
     Inl (Errorf Internal ''failed to update user'' encode_int4_error) \<and>
   users (fst (Update sample_lib alice_pool far_touch_request)) = [alice_row]"
proof -
  have t: "ur_Email touch_request = None" "ur_Name touch_request = None"
    "ur_Role touch_request = Role_UNSPECIFIED"
    by (simp_all add: touch_request_def)
  have f: "ur_Email far_touch_request = None" "ur_Name far_touch_request = None"
    "ur_Role far_touch_request = Role_UNSPECIFIED"
    by (simp_all add: far_touch_request_def touch_request_def)
  have i: "fits_int4 (ur_Id touch_request)" "\<not> fits_int4 (ur_Id far_touch_request)"
    by (simp_all add: far_touch_request_def touch_request_def fits_int4_def)
  from Update_without_fields_refreshes_updated_at [OF t fault_alice, of sample_lib] i
  have a: "snd (Update sample_lib alice_pool touch_request) = Inr Empty"
    "users (fst (Update sample_lib alice_pool touch_request)) =
       [alice_row\<lparr>r_updated_at := 1700000000123\<rparr>]"
    by (simp_all add: alice_pool_def alice_row_def touch_request_def)
  from Update_without_fields_refreshes_updated_at [OF f fault_alice, of sample_lib] i
  have b: "snd (Update sample_lib alice_pool far_touch_request) =
       Inl (Errorf Internal ''failed to update user'' encode_int4_error)"
    "users (fst (Update sample_lib alice_pool far_touch_request)) = [alice_row]"
    by (simp_all add: alice_pool_def)
  from i a b show ?thesis by simp
qed

text \<open>
  Claim C6, as stated, fails: not every \<^verbatim>\<open>Update\<close> or \<^verbatim>\<open>Delete\<close> of a missing id
  succeeds. On a reachable store that holds one user with id 1, the id 2147483648 matches
  no row, yet both operations return an internal error: the 32-bit id column cannot hold
  the id, and it is refused when it is bound.
\<close>

theorem missing_id_counterexample:
  "\<not> list_ex (\<lambda>r. r_id r = ur_Id far_rename_request) (users alice_pool) \<and>
   \<not> list_ex (\<lambda>r. r_id r = dr_Id far_delete_request) (users alice_pool) \<and>
   fault alice_pool = None \<and>
   snd (Update sample_lib alice_pool far_rename_request) =
     Inl (Errorf Internal ''failed to update user'' encode_int4_error) \<and>
   snd (Delete sample_lib alice_pool far_delete_request) =
     Inl (Errorf Internal ''failed to delete user'' encode_int4_error)"
proof -
  have u: "\<not> fits_int4 (ur_Id far_rename_request)"
    by (simp add: far_rename_request_def fits_int4_def)
  have d: "\<not> fits_int4 (dr_Id far_delete_request)"
    by (simp add: far_delete_request_def fits_int4_def)
  show ?thesis
    by (simp add: Update_unfit [OF fault_alice u] Delete_unfit [OF fault_alice d] fault_alice)
       (simp add: far_rename_request_def far_delete_request_def alice_pool_def alice_row_def)
qed

text \<open>
  Claim C6, amended. On a reachable store, an \<^verbatim>\<open>Update\<close> or a \<^verbatim>\<open>Delete\<close> whose id fits
  the 32-bit id column and matches no row has its statement executed with zero rows
  affected, returns the empty response and leaves the rows and the sequence untouched:
  the count is not looked at, and the response of a \<^verbatim>\<open>Delete\<close> is the same whether or
  not a row went. An id that does not fit the column matches no row either, but is
  refused when it is bound: the operation returns an internal error and changes no row.
\<close>

theorem missing_id_is_a_silent_success:
  assumes "fault db = None"
  shows "(fits_int4 (ur_Id u) \<and> \<not> list_ex (\<lambda>r. r_id r = ur_Id u) (users db) \<longrightarrow>
            snd (Exec db (UpdateStmt ''users'' (ub_sets (updateBuilder L u)) [(''id'', Int64 (ur_Id u))]))
              = Inr 0 \<and>
            snd (Update L db u) = Inr Empty \<and>
            users (fst (Update L db u)) = users db \<and>
            users_id_seq (fst (Update L db u)) = users_id_seq db) \<and>
         (fits_int4 (dr_Id d) \<and> \<not> list_ex (\<lambda>r. r_id r = dr_Id d) (users db) \<longrightarrow>
            snd (Exec db (DeleteStmt ''users'' [(''id'', Int64 (dr_Id d))])) = Inr 0 \<and>
            snd (Delete L db d) = Inr Empty \<and>
            users (fst (Delete L db d)) = users db \<and>
            users_id_seq (fst (Delete L db d)) = users_id_seq db) \<and>
         (fits_int4 (dr_Id d') \<longrightarrow> snd (Delete L db d') = Inr Empty) \<and>
         (\<not> fits_int4 (ur_Id u) \<longrightarrow>
            snd (Update L db u) = Inl (Errorf Internal ''failed to update user'' encode_int4_error) \<and>
            users (fst (Update L db u)) = users db) \<and>
         (\<not> fits_int4 (dr_Id d) \<longrightarrow>
            snd (Delete L db d) = Inl (Errorf Internal ''failed to delete user'' encode_int4_error) \<and>
            users (fst (Delete L db d)) = users db)"
proof (intro conjI impI)
  assume "fits_int4 (ur_Id u) \<and> \<not> list_ex (\<lambda>r. r_id r = ur_Id u) (users db)"
  then have i: "fits_int4 (ur_Id u)" and m: "\<not> list_ex (\<lambda>r. r_id r = ur_Id u) (users db)"
    by simp_all
  note h = filter_no_hit [OF m]
  from assms i h show
    "snd (Exec db (UpdateStmt ''users'' (ub_sets (updateBuilder L u)) [(''id'', Int64 (ur_Id u))])) = Inr 0"
    by (simp add: Exec_def Let_def exec_update_def check_sets_updateBuilder)
  from assms i h show "snd (Update L db u) = Inr Empty"
    by (simp add: Update_runs Let_def)
  from assms i h show "users (fst (Update L db u)) = users db"
    by (simp add: Update_runs Let_def)
  from assms i h show "users_id_seq (fst (Update L db u)) = users_id_seq db"
    by (simp add: Update_runs Let_def)
next
  assume "fits_int4 (dr_Id d) \<and> \<not> list_ex (\<lambda>r. r_id r = dr_Id d) (users db)"
  then have i: "fits_int4 (dr_Id d)" and m: "\<not> list_ex (\<lambda>r. r_id r = dr_Id d) (users db)"
    by simp_all
  note h = filter_no_hit [OF m]
  from assms i h show "snd (Exec db (DeleteStmt ''users'' [(''id'', Int64 (dr_Id d))])) = Inr 0"
    by (simp add: Exec_def Let_def exec_delete_def)
  from assms i h show "snd (Delete L db d) = Inr Empty"
    by (simp add: Delete_runs)
  from assms i h show "users (fst (Delete L db d)) = users db"
    by (simp add: Delete_runs)
  from assms i show "users_id_seq (fst (Delete L db d)) = users_id_seq db"
    by (simp add: Delete_runs)
next
  assume "fits_int4 (dr_Id d')"
  with assms show "snd (Delete L db d') = Inr Empty"
    by (simp add: Delete_runs)
next
  assume i: "\<not> fits_int4 (ur_Id u)"
  with assms show
    "snd (Update L db u) = Inl (Errorf Internal ''failed to update user'' encode_int4_error)"
    "users (fst (Update L db u)) = users db"
    by (simp_all add: Update_unfit)
next
  assume i: "\<not> fits_int4 (dr_Id d)"
  with assms show
    "snd (Delete L db d) = Inl (Errorf Internal ''failed to delete user'' encode_int4_error)"
    "users (fst (Delete L db d)) = users db"
    by (simp_all add: Delete_unfit)
qed

theorem missing_id_is_a_silent_success_witness:
  "fits_int4 7 \<and> \<not> list_ex (\<lambda>r. r_id r = 7) (users alice_pool) \<and>
   snd (Update sample_lib alice_pool (rename_request\<lparr>ur_Id := 7\<rparr>)) = Inr Empty \<and>
   users (fst (Update sample_lib alice_pool (rename_request\<lparr>ur_Id := 7\<rparr>))) = [alice_row] \<and>
   snd (Delete sample_lib alice_pool \<lparr>dr_Id = 7\<rparr>) = Inr Empty \<and>
   users (fst (Delete sample_lib alice_pool \<lparr>dr_Id = 7\<rparr>)) = [alice_row] \<and>
   \<not> fits_int4 (dr_Id far_delete_request) \<and>
   snd (Delete sample_lib alice_pool far_delete_request) =
     Inl (Errorf Internal ''failed to delete user'' encode_int4_error)"
proof -
  have i: "fits_int4 7" "\<not> fits_int4 (dr_Id far_delete_request)"
    by (simp_all add: fits_int4_def far_delete_request_def)
  have m: "\<not> list_ex (\<lambda>r. r_id r = 7) (users alice_pool)"
    by (simp add: alice_pool_def alice_row_def)
  have u: "users alice_pool = [alice_row]" by (simp add: alice_pool_def)
  from missing_id_is_a_silent_success
    [OF fault_alice, where u = "rename_request\<lparr>ur_Id := 7\<rparr>" and L = sample_lib
      and d = "\<lparr>dr_Id = 7\<rparr>"] i m u
  have a: "snd (Update sample_lib alice_pool (rename_request\<lparr>ur_Id := 7\<rparr>)) = Inr Empty"
    "users (fst (Update sample_lib alice_pool (rename_request\<lparr>ur_Id := 7\<rparr>))) = [alice_row]"
    "snd (Delete sample_lib alice_pool \<lparr>dr_Id = 7\<rparr>) = Inr Empty"
    "users (fst (Delete sample_lib alice_pool \<lparr>dr_Id = 7\<rparr>)) = [alice_row]"
    by simp_all
  from missing_id_is_a_silent_success
    [OF fault_alice, where d = far_delete_request and L = sample_lib] i
  have b: "snd (Delete sample_lib alice_pool far_delete_request) =
     Inl (Errorf Internal ''failed to delete user'' encode_int4_error)"
    by simp
  from i m a b show ?thesis by simp
qed

text \<open>
  Claim C7. A \<^verbatim>\<open>Get\<close> whose id matches no row fails. Every error any of the four
  operations returns carries the code \<open>Internal\<close>: the failure of the hash, a failure of
  the connection, an id the driver cannot bind, a rejection by the store, a missing row. No operation submits more than
  one statement, so none retries.
\<close>

theorem every_failure_is_Internal:
  "(\<not> list_ex (\<lambda>r. r_id r = gr_Id g) (users db) \<longrightarrow>
      isl (snd (Get L db g)) \<and>
      (fault db = None \<and> fits_int4 (gr_Id g) \<longrightarrow>
         snd (Get L db g) = Inl (Errorf Internal ''failed to select user'' ErrNoRows)) \<and>
      (fault db = None \<and> \<not> fits_int4 (gr_Id g) \<longrightarrow>
         snd (Get L db g) = Inl (Errorf Internal ''failed to select user'' encode_int4_error))) \<and>
   (\<forall>e. snd (Create L db c) = Inl e \<longrightarrow> status_code e = Internal) \<and>
   (\<forall>e. snd (Get L db g) = Inl e \<longrightarrow> status_code e = Internal) \<and>
   (\<forall>e. snd (Update L db u) = Inl e \<longrightarrow> status_code e = Internal) \<and>
   (\<forall>e. snd (Delete L db d) = Inl e \<longrightarrow> status_code e = Internal) \<and>
   (\<forall>err. GenerateFromPassword L (cr_Password c) MinCost = Inl err \<longrightarrow>
      Create L db c = (db, Inl (Errorf Internal ''failed to hash password'' err))) \<and>
   (\<forall>err. fault db = Some err \<longrightarrow>
      (\<not> isl (GenerateFromPassword L (cr_Password c) MinCost) \<longrightarrow>
         snd (Create L db c) = Inl (Errorf Internal ''failed to insert user'' err)) \<and>
      snd (Get L db g) = Inl (Errorf Internal ''failed to select user'' err) \<and>
      snd (Update L db u) = Inl (Errorf Internal ''failed to update user'' err) \<and>
      snd (Delete L db d) = Inl (Errorf Internal ''failed to delete user'' err)) \<and>
   length (submitted (fst (Create L db c))) \<le> length (submitted db) + 1 \<and>
   length (submitted (fst (Get L db g))) = length (submitted db) + 1 \<and>
   length (submitted (fst (Update L db u))) = length (submitted db) + 1 \<and>
   length (submitted (fst (Delete L db d))) = length (submitted db) + 1"
proof -
  have get: "\<not> list_ex (\<lambda>r. r_id r = gr_Id g) (users db) \<longrightarrow>
      isl (snd (Get L db g)) \<and>
      (fault db = None \<and> fits_int4 (gr_Id g) \<longrightarrow>
         snd (Get L db g) = Inl (Errorf Internal ''failed to select user'' ErrNoRows)) \<and>
      (fault db = None \<and> \<not> fits_int4 (gr_Id g) \<longrightarrow>
         snd (Get L db g) = Inl (Errorf Internal ''failed to select user'' encode_int4_error))"
  proof (intro impI conjI)
    assume m: "\<not> list_ex (\<lambda>r. r_id r = gr_Id g) (users db)"
    note h = filter_no_hit [OF m]
    from h show "isl (snd (Get L db g))"
      by (cases "fault db"; cases "fits_int4 (gr_Id g)")
         (simp_all add: Get_fault Get_runs Get_unfit)
    {
      assume "fault db = None \<and> fits_int4 (gr_Id g)"
      with h show "snd (Get L db g) = Inl (Errorf Internal ''failed to select user'' ErrNoRows)"
        by (simp add: Get_runs)
    }
    {
      assume "fault db = None \<and> \<not> fits_int4 (gr_Id g)"
      then show "snd (Get L db g) = Inl (Errorf Internal ''failed to select user'' encode_int4_error)"
        by (simp add: Get_unfit)
    }
  qed
  have kinds:
    "\<forall>e. snd (Create L db c) = Inl e \<longrightarrow> status_code e = Internal"
    "\<forall>e. snd (Get L db g) = Inl e \<longrightarrow> status_code e = Internal"
    "\<forall>e. snd (Update L db u) = Inl e \<longrightarrow> status_code e = Internal"
    "\<forall>e. snd (Delete L db d) = Inl e \<longrightarrow> status_code e = Internal"
    using Create_error_is_Internal Get_error_is_Internal Update_error_is_Internal
      Delete_error_is_Internal by blast+
  have hash: "\<forall>err. GenerateFromPassword L (cr_Password c) MinCost = Inl err \<longrightarrow>
      Create L db c = (db, Inl (Errorf Internal ''failed to hash password'' err))"
    by (simp add: Create_hash_fails)
  have store: "\<forall>err. fault db = Some err \<longrightarrow>
      (\<not> isl (GenerateFromPassword L (cr_Password c) MinCost) \<longrightarrow>
         snd (Create L db c) = Inl (Errorf Internal ''failed to insert user'' err)) \<and>
      snd (Get L db g) = Inl (Errorf Internal ''failed to select user'' err) \<and>
      snd (Update L db u) = Inl (Errorf Internal ''failed to update user'' err) \<and>
      snd (Delete L db d) = Inl (Errorf Internal ''failed to delete user'' err)"
    by (cases "GenerateFromPassword L (cr_Password c) MinCost")
       (simp_all add: Create_fault Get_fault Update_fault Delete_fault)
  have once:
    "length (submitted (fst (Create L db c))) \<le> length (submitted db) + 1"
    "length (submitted (fst (Get L db g))) = length (submitted db) + 1"
    "length (submitted (fst (Update L db u))) = length (submitted db) + 1"
    "length (submitted (fst (Delete L db d))) = length (submitted db) + 1"
    by (simp_all add: submitted_Create submitted_Get submitted_Update submitted_Delete
        split: sum.splits)
  from get kinds hash store once show ?thesis by blast
qed

theorem every_failure_is_Internal_witness:
  "\<not> list_ex (\<lambda>r. r_id r = 7) (users alice_pool) \<and>
   snd (Get sample_lib alice_pool \<lparr>gr_Id = 7\<rparr>) =
     Inl (Errorf Internal ''failed to select user'' ErrNoRows) \<and>
   Create failing_lib alice_pool bob_request =
     (alice_pool,
      Inl (Errorf Internal ''failed to hash password'' ''unexpected EOF'')) \<and>
   snd (Update sample_lib down_pool touch_request) =
     Inl (Errorf Internal ''failed to update user'' ''connection refused'') \<and>
   snd (Delete sample_lib down_pool \<lparr>dr_Id = 1\<rparr>) =
     Inl (Errorf Internal ''failed to delete user'' ''connection refused'')"
proof -
  have m: "\<not> list_ex (\<lambda>r. r_id r = 7) (users alice_pool)"
    by (simp add: alice_pool_def alice_row_def)
  have g: "GenerateFromPassword failing_lib (cr_Password bob_request) MinCost =
             Inl ''unexpected EOF''"
    by (simp add: failing_lib_def sample_lib_def)
  have d: "fault down_pool = Some ''connection refused''"
    by (simp add: down_pool_def)
  have i: "fits_int4 (gr_Id \<lparr>gr_Id = 7\<rparr>)" by (simp add: fits_int4_def)
  from every_failure_is_Internal [where g = "\<lparr>gr_Id = 7\<rparr>" and db = alice_pool and L = sample_lib]
    m fault_alice i
  have a: "snd (Get sample_lib alice_pool \<lparr>gr_Id = 7\<rparr>) =
     Inl (Errorf Internal ''failed to select user'' ErrNoRows)"
    by simp
  from every_failure_is_Internal [where c = bob_request and db = alice_pool and L = failing_lib] g
  have b: "Create failing_lib alice_pool bob_request =
     (alice_pool,
      Inl (Errorf Internal ''failed to hash password'' ''unexpected EOF''))"
    by simp
  from every_failure_is_Internal
    [where u = touch_request and d = "\<lparr>dr_Id = 1\<rparr>" and db = down_pool and L = sample_lib] d
  have c: "snd (Update sample_lib down_pool touch_request) =
     Inl (Errorf Internal ''failed to update user'' ''connection refused'')"
    "snd (Delete sample_lib down_pool \<lparr>dr_Id = 1\<rparr>) =
     Inl (Errorf Internal ''failed to delete user'' ''connection refused'')"
    by simp_all
  from m a b c show ?thesis by simp
qed

text \<open>
  Claim C8. Lower-casing the name of a role, as \<^verbatim>\<open>Create\<close> does, and scanning that
  text, as \<^verbatim>\<open>Get\<close> does, gives the role back. Hence a \<^verbatim>\<open>Get\<close> of the id that a
  successful \<^verbatim>\<open>Create\<close> returned, on the pool as \<^verbatim>\<open>Create\<close> left it, succeeds with
  the trimmed name, the trimmed and lower-cased email, the role of the request, and equal
  creation and update times.
\<close>

theorem Get_after_Create_returns_the_request:
  "(\<forall>r. Scan L (DString (ToLower L (Role_String r))) = Inr r) \<and>
   (\<forall>db' resp. Create L db req = (db', Inr resp) \<longrightarrow>
      snd (Get L db' \<lparr>gr_Id = cresp_Id resp\<rparr>) =
        Inr \<lparr>resp_Id = cresp_Id resp, resp_Name = TrimSpace L (cr_Name req),
             resp_Email = ToLower L (TrimSpace L (cr_Email req)), resp_Role = cr_Role req,
             resp_CreatedAt = timestamppb_New (now db),
             resp_UpdatedAt = timestamppb_New (now db)\<rparr>)"
proof (intro conjI allI impI)
  fix r show "Scan L (DString (ToLower L (Role_String r))) = Inr r"
    by (simp add: Scan_text role_round_trip)
next
  fix db' resp
  assume c: "Create L db req = (db', Inr resp)"
  from Create_success [OF c] obtain h where
    i: "cresp_Id resp = users_id_seq db + 1" and
    m: "\<not> list_ex (\<lambda>x. r_id x = users_id_seq db + 1) (users db)" and
    f: "fault db = None" and
    r: "fits_int4 (users_id_seq db + 1)" and
    d: "db' = db\<lparr>submitted := submitted db @ [insert_stmt L req h],
                  users_id_seq := users_id_seq db + 1,
                  users := users db @ [new_row L db req h]\<rparr>"
    by blast
  from d f have f': "fault db' = None" by simp
  have hit: "filter (\<lambda>r. r_id r = cresp_Id resp) (users db') = [new_row L db req h]"
    using filter_no_hit [OF m] d i by (simp add: new_row_def)
  show "snd (Get L db' \<lparr>gr_Id = cresp_Id resp\<rparr>) =
        Inr \<lparr>resp_Id = cresp_Id resp, resp_Name = TrimSpace L (cr_Name req),
             resp_Email = ToLower L (TrimSpace L (cr_Email req)), resp_Role = cr_Role req,
             resp_CreatedAt = timestamppb_New (now db),
             resp_UpdatedAt = timestamppb_New (now db)\<rparr>"
  proof -
    from r i have g: "fits_int4 (gr_Id \<lparr>gr_Id = cresp_Id resp\<rparr>)" by simp
    show ?thesis
      by (simp add: Get_runs [OF f' g] hit) (simp add: new_row_def role_round_trip i)
  qed
qed

theorem Get_after_Create_returns_the_request_witness:
  "Create sample_lib alice_pool bob_request =
     (alice_pool\<lparr>submitted := [insert_stmt sample_lib bob_request sample_hash],
                 users_id_seq := 2, users := [alice_row, bob_row]\<rparr>,
      Inr \<lparr>cresp_Id = 2\<rparr>) \<and>
   snd (Get sample_lib
          (alice_pool\<lparr>submitted := [insert_stmt sample_lib bob_request sample_hash],
                      users_id_seq := 2, users := [alice_row, bob_row]\<rparr>)
          \<lparr>gr_Id = 2\<rparr>) =
     Inr \<lparr>resp_Id = 2, resp_Name = ''Bob'', resp_Email = ''bob@example.org'', resp_Role = Role_USER,
          resp_CreatedAt = \<lparr>Seconds = 1700000000, Nanos = 123000000\<rparr>,
          resp_UpdatedAt = \<lparr>Seconds = 1700000000, Nanos = 123000000\<rparr>\<rparr>"
proof -
  have t: "TrimSpace sample_lib (cr_Name bob_request) = ''Bob''"
    "ToLower sample_lib (TrimSpace sample_lib (cr_Email bob_request)) = ''bob@example.org''"
    "cr_Role bob_request = Role_USER" "timestamppb_New (now alice_pool) = \<lparr>Seconds = 1700000000, Nanos = 123000000\<rparr>"
    by (simp_all add: bob_request_def string_defs timestamppb_New_def alice_pool_def)
  from Get_after_Create_returns_the_request [of sample_lib alice_pool bob_request] Create_bob t
  show ?thesis by simp
qed

text \<open>
  Claim C9. For SQL NULL in the role column the scanner yields \<open>unspecified\<close> and no
  error, and so it does for every value that the null-string scan accepts and marks as
  not valid. (A value on which the null-string scan itself returns an error is not
  marked: its error is returned as it is.)
\<close>

theorem Scan_null_is_unspecified:
  "Scan L DNil = Inr Role_UNSPECIFIED \<and>
   (\<forall>ns. NullString_Scan v = Inr ns \<and> \<not> ns_Valid ns \<longrightarrow> Scan L v = Inr Role_UNSPECIFIED)"
  by (simp add: Scan_def NullString_Scan_def)

theorem Scan_null_is_unspecified_witness:
  "NullString_Scan DNil = Inr \<lparr>ns_String = [], ns_Valid = False\<rparr> \<and>
   Scan sample_lib DNil = Inr Role_UNSPECIFIED"
  using Scan_null_is_unspecified [of sample_lib DNil]
  by (simp add: NullString_Scan_def)

text \<open>
  Claim C10. \<^verbatim>\<open>Create\<close> has no check of its own on the password. With the empty
  password, \<^verbatim>\<open>hashAndSalt\<close> hands the empty string to bcrypt at the minimum cost and
  returns what bcrypt returns. \<^verbatim>\<open>Create\<close> submits the insert exactly when bcrypt
  returns a hash, with that hash as the password, and then succeeds whenever the store
  accepts the row; it stops before the insert only with bcrypt's own error. Its result is
  that of a request with any other password on which bcrypt returns the same.
\<close>

theorem Create_does_not_reject_an_empty_password:
  assumes "cr_Password req = []"
  shows "hashAndSalt L [] = GenerateFromPassword L [] MinCost \<and>
         (submitted (fst (Create L db req)) \<noteq> submitted db \<longleftrightarrow>
            \<not> isl (GenerateFromPassword L [] MinCost)) \<and>
         (\<forall>err. GenerateFromPassword L [] MinCost = Inl err \<longrightarrow>
            Create L db req = (db, Inl (Errorf Internal ''failed to hash password'' err))) \<and>
         (\<forall>h. GenerateFromPassword L [] MinCost = Inr h \<longrightarrow>
            submitted (fst (Create L db req)) =
              submitted db @
                [InsertStmt ''users'' [''name'', ''email'', ''password'', ''role'']
                   [Str (TrimSpace L (cr_Name req)), Str (ToLower L (TrimSpace L (cr_Email req))),
                    Str h, Str (ToLower L (Role_String (cr_Role req)))]
                   ''RETURNING id''] \<and>
            (fault db = None \<and> cr_Role req \<noteq> Role_UNSPECIFIED \<and>
             fits_int4 (users_id_seq db + 1) \<and>
             \<not> list_ex (\<lambda>x. r_id x = users_id_seq db + 1) (users db) \<and>
             \<not> list_ex (\<lambda>x. r_email x = ToLower L (TrimSpace L (cr_Email req))) (users db) \<and>
             \<not> list_ex (\<lambda>x. r_name x = TrimSpace L (cr_Name req)) (users db) \<longrightarrow>
             snd (Create L db req) = Inr \<lparr>cresp_Id = users_id_seq db + 1\<rparr> \<and>
             users (fst (Create L db req)) =
               users db @
                 [\<lparr>r_id = users_id_seq db + 1, r_name = TrimSpace L (cr_Name req),
                   r_email = ToLower L (TrimSpace L (cr_Email req)), r_password = h,
                   r_role = ToLower L (Role_String (cr_Role req)),
                   r_created_at = now db, r_updated_at = now db\<rparr>])) \<and>
         (\<forall>p. GenerateFromPassword L p MinCost = GenerateFromPassword L [] MinCost \<longrightarrow>
            Create L db (req\<lparr>cr_Password := p\<rparr>) = Create L db req)"
proof (intro conjI allI impI)
  show "hashAndSalt L [] = GenerateFromPassword L [] MinCost"
    by (simp add: hashAndSalt_def split: sum.splits)
next
  from assms show "(submitted (fst (Create L db req)) \<noteq> submitted db) =
      (\<not> isl (GenerateFromPassword L [] MinCost))"
    by (cases "GenerateFromPassword L [] MinCost") (simp_all add: submitted_Create)
next
  fix err assume "GenerateFromPassword L [] MinCost = Inl err"
  with assms have "GenerateFromPassword L (cr_Password req) MinCost = Inl err" by simp
  then show "Create L db req = (db, Inl (Errorf Internal ''failed to hash password'' err))"
    by (rule Create_hash_fails)
next
  fix h assume "GenerateFromPassword L [] MinCost = Inr h"
  with assms have g: "GenerateFromPassword L (cr_Password req) MinCost = Inr h" by simp
  then show "submitted (fst (Create L db req)) =
              submitted db @
                [InsertStmt ''users'' [''name'', ''email'', ''password'', ''role'']
                   [Str (TrimSpace L (cr_Name req)), Str (ToLower L (TrimSpace L (cr_Email req))),
                    Str h, Str (ToLower L (Role_String (cr_Role req)))]
                   ''RETURNING id'']"
    by (simp add: submitted_Create insert_stmt_def)
  assume a: "fault db = None \<and> cr_Role req \<noteq> Role_UNSPECIFIED \<and>
             fits_int4 (users_id_seq db + 1) \<and>
             \<not> list_ex (\<lambda>x. r_id x = users_id_seq db + 1) (users db) \<and>
             \<not> list_ex (\<lambda>x. r_email x = ToLower L (TrimSpace L (cr_Email req))) (users db) \<and>
             \<not> list_ex (\<lambda>x. r_name x = TrimSpace L (cr_Name req)) (users db)"
  then have e: "ToLower L (Role_String (cr_Role req)) \<in> set user_role"
    by (simp add: role_text_in_enum)
  from a e g show "snd (Create L db req) = Inr \<lparr>cresp_Id = users_id_seq db + 1\<rparr>"
    by (simp add: Create_runs Let_def new_row_def)
  from a e g show "users (fst (Create L db req)) =
               users db @
                 [\<lparr>r_id = users_id_seq db + 1, r_name = TrimSpace L (cr_Name req),
                   r_email = ToLower L (TrimSpace L (cr_Email req)), r_password = h,
                   r_role = ToLower L (Role_String (cr_Role req)),
                   r_created_at = now db, r_updated_at = now db\<rparr>]"
    by (simp add: Create_runs Let_def new_row_def)
next
  fix p assume "GenerateFromPassword L p MinCost = GenerateFromPassword L [] MinCost"
  with assms show "Create L db (req\<lparr>cr_Password := p\<rparr>) = Create L db req"
    by (cases "GenerateFromPassword L [] MinCost") (simp_all add: Create_def hashAndSalt_def)
qed

theorem Create_does_not_reject_an_empty_password_witness:
  "cr_Password (bob_request\<lparr>cr_Password := []\<rparr>) = [] \<and>
   GenerateFromPassword sample_lib [] MinCost = Inr sample_hash \<and>
   hashAndSalt sample_lib [] = Inr sample_hash \<and>
   snd (Create sample_lib alice_pool (bob_request\<lparr>cr_Password := []\<rparr>)) = Inr \<lparr>cresp_Id = 2\<rparr> \<and>
   users (fst (Create sample_lib alice_pool (bob_request\<lparr>cr_Password := []\<rparr>))) = [alice_row, bob_row] \<and>
   GenerateFromPassword failing_lib [] MinCost = Inl ''unexpected EOF'' \<and>
   Create failing_lib alice_pool (bob_request\<lparr>cr_Password := []\<rparr>) =
     (alice_pool,
      Inl (Errorf Internal ''failed to hash password'' ''unexpected EOF''))"
proof -
  let ?req = "bob_request\<lparr>cr_Password := []\<rparr>"
  have p: "cr_Password ?req = []" by simp
  have g: "GenerateFromPassword sample_lib [] MinCost = Inr sample_hash"
    by (rule sample_hashes)
  have k: "cr_Role ?req \<noteq> Role_UNSPECIFIED" by (simp add: bob_request_def)
  have n: "fits_int4 (users_id_seq alice_pool + 1)"
    "\<not> list_ex (\<lambda>x. r_id x = users_id_seq alice_pool + 1) (users alice_pool)"
    "\<not> list_ex (\<lambda>x. r_email x = ToLower sample_lib (TrimSpace sample_lib (cr_Email ?req)))
        (users alice_pool)"
    "\<not> list_ex (\<lambda>x. r_name x = TrimSpace sample_lib (cr_Name ?req)) (users alice_pool)"
    using no_conflict_bob by simp_all
  note th = Create_does_not_reject_an_empty_password [OF p, of sample_lib alice_pool]
  from th g have h: "hashAndSalt sample_lib [] = Inr sample_hash" by simp
  from th g k n fault_alice
  have r: "snd (Create sample_lib alice_pool ?req) = Inr \<lparr>cresp_Id = users_id_seq alice_pool + 1\<rparr> \<and>
    users (fst (Create sample_lib alice_pool ?req)) =
       users alice_pool @
         [\<lparr>r_id = users_id_seq alice_pool + 1, r_name = TrimSpace sample_lib (cr_Name ?req),
           r_email = ToLower sample_lib (TrimSpace sample_lib (cr_Email ?req)),
           r_password = sample_hash,
           r_role = ToLower sample_lib (Role_String (cr_Role ?req)),
           r_created_at = now alice_pool, r_updated_at = now alice_pool\<rparr>]"
    by blast
  have e: "GenerateFromPassword failing_lib [] MinCost = Inl ''unexpected EOF''"
    by (simp add: failing_lib_def sample_lib_def)
  from Create_does_not_reject_an_empty_password [OF p, of failing_lib alice_pool] e
  have x: "Create failing_lib alice_pool ?req =
     (alice_pool,
      Inl (Errorf Internal ''failed to hash password'' ''unexpected EOF''))"
    by blast
  from p g h r e x show ?thesis
    by (simp add: alice_pool_def bob_row_def bob_request_def string_defs)
qed

end
